theory Spec2Isabelle
  imports Main
begin

section \<open>JavaScript strings\<close>

text \<open>
  A JavaScript string is modelled as a list of 8-bit characters: the code units below
  256 (Latin-1), which is also the range of the binary strings \<open>atob\<close> returns. Code
  units from 256 on are outside the model. The functions of this section are the
  built-in string methods the sources call: \<open>trim\<close>, \<open>toLowerCase\<close>,
  \<open>split\<close>, \<open>join\<close>, \<open>startsWith\<close>, \<open>lastIndexOf\<close>,
  \<open>substring\<close> and \<open>atob\<close>.
\<close>

definition js_whitespace :: "char \<Rightarrow> bool" where
  "js_whitespace c =
     (c \<in> {CHR 0x09, CHR 0x0A, CHR 0x0B, CHR 0x0C, CHR 0x0D, CHR '' '', CHR 0xA0})"

definition js_trim :: "string \<Rightarrow> string" where
  "js_trim s = rev (dropWhile js_whitespace (rev (dropWhile js_whitespace s)))"

definition js_upper :: "char \<Rightarrow> bool" where
  "js_upper c =
     (let n = (of_char c :: nat)
      in (65 \<le> n \<and> n \<le> 90) \<or> (192 \<le> n \<and> n \<le> 222 \<and> n \<noteq> 215))"

text \<open>
  An upper-case letter of Latin-1 and its lower-case letter differ by 32, which is
  bit 5 of the code unit; that bit is clear in every upper-case letter.
\<close>

fun js_toLowerCase_char :: "char \<Rightarrow> char" where
  "js_toLowerCase_char (Char b0 b1 b2 b3 b4 b5 b6 b7) =
     (if js_upper (Char b0 b1 b2 b3 b4 b5 b6 b7) then Char b0 b1 b2 b3 b4 True b6 b7
      else Char b0 b1 b2 b3 b4 b5 b6 b7)"

definition js_toLowerCase :: "string \<Rightarrow> string" where
  "js_toLowerCase s = map js_toLowerCase_char s"

text \<open>\<open>s.split(sep)\<close> for a one-character separator: never the empty array.\<close>

fun js_split :: "char \<Rightarrow> string \<Rightarrow> string list" where
  "js_split sep [] = [[]]"
| "js_split sep (c # cs) =
     (if c = sep then [] # js_split sep cs
      else (case js_split sep cs of [] \<Rightarrow> [[c]] | w # ws \<Rightarrow> (c # w) # ws))"

fun js_join :: "string \<Rightarrow> string list \<Rightarrow> string" where
  "js_join sep [] = []"
| "js_join sep [w] = w"
| "js_join sep (w # v # ws) = w @ sep @ js_join sep (v # ws)"

definition js_startsWith :: "string \<Rightarrow> string \<Rightarrow> bool" where
  "js_startsWith s p = (take (length p) s = p)"

text \<open>\<open>s.lastIndexOf(c)\<close>: the last position of \<open>c\<close>, or \<open>-1\<close>.\<close>

definition js_lastIndexOf :: "string \<Rightarrow> char \<Rightarrow> int" where
  "js_lastIndexOf s c =
     (if c \<in> set s then int (length s) - 1 - int (length (takeWhile (\<lambda>x. x \<noteq> c) (rev s)))
      else - 1)"

text \<open>
  \<open>substring\<close> clamps each index to the range from 0 to the length and swaps them
  when the first is the larger.
\<close>

definition js_clamp :: "string \<Rightarrow> int \<Rightarrow> nat" where
  "js_clamp s i = (if i < 0 then 0 else min (nat i) (length s))"

definition js_substring :: "string \<Rightarrow> int \<Rightarrow> int \<Rightarrow> string" where
  "js_substring s i j =
     (let a = js_clamp s i; b = js_clamp s j
      in take (max a b - min a b) (drop (min a b) s))"

definition js_substring_from :: "string \<Rightarrow> int \<Rightarrow> string" where
  "js_substring_from s i = drop (js_clamp s i) s"

subsection \<open>atob\<close>

text \<open>
  \<open>atob\<close> is the forgiving base64 decoder of the platform: ASCII whitespace is
  removed, one or two padding characters are dropped from an input whose length is a
  multiple of four, and the call throws (here: \<open>None\<close>) when the remaining length is
  1 modulo 4 or a character is outside the base64 alphabet.
\<close>

definition b64_whitespace :: "char \<Rightarrow> bool" where
  "b64_whitespace c = (c \<in> {CHR 0x09, CHR 0x0A, CHR 0x0C, CHR 0x0D, CHR '' ''})"

definition b64_value :: "char \<Rightarrow> nat option" where
  "b64_value c =
     (let n = (of_char c :: nat)
      in if 65 \<le> n \<and> n \<le> 90 then Some (n - 65)
         else if 97 \<le> n \<and> n \<le> 122 then Some (n - 71)
         else if 48 \<le> n \<and> n \<le> 57 then Some (n + 4)
         else if n = 43 then Some 62
         else if n = 47 then Some 63
         else None)"

definition b64_strip_padding :: "string \<Rightarrow> string" where
  "b64_strip_padding d =
     (if length d mod 4 \<noteq> 0 then d
      else if d \<noteq> [] \<and> last d = CHR ''=''
      then (if butlast d \<noteq> [] \<and> last (butlast d) = CHR ''=''
            then butlast (butlast d) else butlast d)
      else d)"

fun b64_bytes :: "nat list \<Rightarrow> string" where
  "b64_bytes (a # b # c # d # rest) =
     char_of (a * 4 + b div 16) # char_of ((b mod 16) * 16 + c div 4)
       # char_of ((c mod 4) * 64 + d) # b64_bytes rest"
| "b64_bytes [a, b, c] = [char_of (a * 4 + b div 16), char_of ((b mod 16) * 16 + c div 4)]"
| "b64_bytes [a, b] = [char_of (a * 4 + b div 16)]"
| "b64_bytes _ = []"

definition js_atob :: "string \<Rightarrow> string option" where
  "js_atob s =
     (let d = b64_strip_padding (filter (\<lambda>c. \<not> b64_whitespace c) s)
      in if length d mod 4 = 1 then None
         else if list_ex (\<lambda>c. b64_value c = None) d then None
         else Some (b64_bytes (map (\<lambda>c. the (b64_value c)) d)))"

section \<open>The virtual filesystem adapter (terminal-logic.js, in src/js/main.js)\<close>

text \<open>
  The remote content provider answers a path with JSON: an array of items for a
  directory, an object with a \<open>type\<close> and possibly a \<open>content\<close> for anything
  else. \<open>None\<close> stands for a request that fails: \<open>fetch\<close> rejects, the status
  is not ok, or the body is not JSON. The cache \<open>fileSystemCache\<close> holds both kinds
  under the same keys.
\<close>

record item =
  item_name :: string
  item_type :: string

datatype json = Listing "item list" | Object string "string option"

type_synonym remote = "string \<Rightarrow> json option"

text \<open>\<open>data.type\<close> and \<open>data.content\<close>: \<open>undefined\<close> on an array.\<close>

fun json_type :: "json \<Rightarrow> string option" where
  "json_type (Listing xs) = None"
| "json_type (Object t c) = Some t"

fun json_content :: "json \<Rightarrow> string option" where
  "json_content (Listing xs) = None"
| "json_content (Object t c) = c"

text \<open>A string or \<open>undefined\<close> as a condition: the empty string is falsy.\<close>

fun truthy :: "string option \<Rightarrow> bool" where
  "truthy None = False"
| "truthy (Some s) = (s \<noteq> [])"

text \<open>
  An array method (\<open>forEach\<close>, \<open>filter\<close>, \<open>find\<close>) exists on an array only:
  on an object the call throws a TypeError.
\<close>

datatype error = TypeError

fun as_array :: "json \<Rightarrow> error + item list" where
  "as_array (Listing xs) = Inr xs"
| "as_array (Object t c) = Inl TypeError"

text \<open>
  The rendered surface is the list of the children of the terminal element. A line is
  kept by what it shows: \<open>Text\<close> is an element with that \<open>textContent\<close>,
  \<open>Html\<close> one built from the named \<open>innerHTML\<close> template with the strings
  interpolated into it, \<open>Opaque\<close> an informational text (the biographies, whose
  wording depends on the date; a pictograph or check mark of a template is left out
  or spelled in ASCII), \<open>Prompt\<close> the prompt line with its directory
  display and the text of its \<open>user-input\<close> span, \<open>Echo\<close> a prompt without an
  input area followed by the command. Which element a prompt is does not show in the
  list: the state counts the prompt elements created, \<open>promptElements\<close>, and a
  reference to a span is the number of its prompt.
\<close>

datatype line =
    Text string
  | Pre string
  | Html string "string list"
  | Numbered nat string
  | Opaque string
  | Break
  | WelcomeMessage
  | Prompt string string
  | Echo string string
  | CompletionSuggestions "string list"
  | CompletionIndicator int "string list"

record state =
  currentDirectory :: string
  fileSystemCache :: "string \<Rightarrow> json option"
  commandHistory :: "string list"
  historyIndex :: int
  autocompleteSuggestions :: "string list"
  autocompleteIndex :: int
  autocompleteBaseInput :: string
  hiddenInput :: string
  terminal :: "line list"
  currentTheme :: string
  dataTheme :: "string option"
  savedTheme :: "string option"
  opened :: "string list"
  promptElements :: nat

definition getDirectoryContents :: "remote \<Rightarrow> string \<Rightarrow> state \<Rightarrow> json option \<times> state" where
  "getDirectoryContents remote path st =
     (case fileSystemCache st path of
        Some data \<Rightarrow> (Some data, st)
      | None \<Rightarrow>
          (case remote path of
             None \<Rightarrow> (None, st)
           | Some data \<Rightarrow>
               (Some data, st\<lparr>fileSystemCache := (fileSystemCache st)(path \<mapsto> data)\<rparr>)))"

text \<open>
  \<open>getFileContent\<close> returns a string or \<open>null\<close> (\<open>None\<close>). A cached entry is
  used when its \<open>content\<close> is truthy; the fetched object is stored before it is
  decoded.
\<close>

definition cached_content :: "state \<Rightarrow> string \<Rightarrow> string option" where
  "cached_content st path =
     (case fileSystemCache st path of
        None \<Rightarrow> None
      | Some cachedData \<Rightarrow>
          (if truthy (json_content cachedData) then json_content cachedData else None))"

definition getFileContent :: "remote \<Rightarrow> string \<Rightarrow> state \<Rightarrow> string option \<times> state" where
  "getFileContent remote path st =
     (case cached_content st path of
        Some c \<Rightarrow>
          (case js_atob c of
             Some t \<Rightarrow> (Some t, st)
           | None \<Rightarrow> (Some ''Error: Could not decode file content.'', st))
      | None \<Rightarrow>
          (case remote path of
             None \<Rightarrow> (None, st)
           | Some data \<Rightarrow>
               (if json_type data \<noteq> Some ''file'' \<or> \<not> truthy (json_content data)
                then (None, st)
                else
                  (let st' = st\<lparr>fileSystemCache := (fileSystemCache st)(path \<mapsto> data)\<rparr>
                   in case js_atob (the (json_content data)) of
                        Some t \<Rightarrow> (Some t, st')
                      | None \<Rightarrow> (None, st')))))"

section \<open>The theme registry (theme-manager.js, in src/unnamed/part_001)\<close>

text \<open>
  The registry is an object literal with four keys of its own, in this order. The
  descriptions are kept without their leading pictograph. A lookup
  \<open>themes[key]\<close> that finds no own key continues in \<open>Object.prototype\<close>, whose
  properties are functions (each with a \<open>name\<close>), and the prototype object itself
  under \<open>__proto__\<close> (which has no \<open>name\<close>).
\<close>

definition themes :: "(string \<times> string \<times> string) list" where
  "themes =
     [(''catppuccin-mocha'',
         ''Catppuccin Mocha'', ''The darkest Catppuccin flavor with rich, deep colors''),
      (''gruvbox'', ''Gruvbox'', ''Retro groove colors with warm earth tones''),
      (''matrix'', ''Matrix'', ''Green on black like the Matrix terminal''),
      (''catppuccin-latte'',
         ''Catppuccin Latte'', ''A warm, light theme perfect for daytime coding'')]"

definition object_prototype :: "(string \<times> string option) list" where
  "object_prototype =
     [(''constructor'', Some ''Object''),
      (''__defineGetter__'', Some ''__defineGetter__''),
      (''__defineSetter__'', Some ''__defineSetter__''),
      (''hasOwnProperty'', Some ''hasOwnProperty''),
      (''__lookupGetter__'', Some ''__lookupGetter__''),
      (''__lookupSetter__'', Some ''__lookupSetter__''),
      (''isPrototypeOf'', Some ''isPrototypeOf''),
      (''propertyIsEnumerable'', Some ''propertyIsEnumerable''),
      (''toString'', Some ''toString''),
      (''valueOf'', Some ''valueOf''),
      (''__proto__'', None),
      (''toLocaleString'', Some ''toLocaleString'')]"

datatype property = Theme string string | Inherited "string option"

text \<open>\<open>themes[key]\<close>; \<open>None\<close> is \<open>undefined\<close>. Every value found is truthy.\<close>

definition themes_get :: "string \<Rightarrow> property option" where
  "themes_get key =
     (case map_of themes key of
        Some (n, d) \<Rightarrow> Some (Theme n d)
      | None \<Rightarrow>
          (case map_of object_prototype key of
             Some f \<Rightarrow> Some (Inherited f)
           | None \<Rightarrow> None))"

text \<open>\<open>.name\<close> and \<open>.description\<close> as a template literal prints them.\<close>

fun property_name :: "property \<Rightarrow> string" where
  "property_name (Theme n d) = n"
| "property_name (Inherited (Some f)) = f"
| "property_name (Inherited None) = ''undefined''"

fun property_description :: "property \<Rightarrow> string" where
  "property_description (Theme n d) = d"
| "property_description (Inherited f) = ''undefined''"

definition getCurrentTheme :: "state \<Rightarrow> string" where
  "getCurrentTheme st = currentTheme st"

text \<open>
  \<open>dataTheme\<close> is the \<open>data-theme\<close> attribute of the document element and
  \<open>savedTheme\<close> the \<open>terminal-theme\<close> entry of \<open>localStorage\<close>.
\<close>

definition setTheme :: "string \<Rightarrow> state \<Rightarrow> bool \<times> state" where
  "setTheme themeName st =
     (case themes_get themeName of
        None \<Rightarrow> (False, st)
      | Some v \<Rightarrow>
          (True,
           st\<lparr>currentTheme := themeName,
              dataTheme := (if themeName = ''catppuccin-mocha'' then None else Some themeName),
              savedTheme := Some themeName\<rparr>))"

definition loadSavedTheme :: "state \<Rightarrow> state" where
  "loadSavedTheme st =
     (if truthy (savedTheme st) \<and> themes_get (the (savedTheme st)) \<noteq> None
      then snd (setTheme (the (savedTheme st)) st) else st)"

definition getThemesList :: "(string \<times> string \<times> string) list" where
  "getThemesList = themes"

section \<open>Autocompletion (terminal-logic.js, in src/js/main.js)\<close>

definition commandList :: "(string \<times> string) list" where
  "commandList =
     [(''.'', ''Open the source code repository from current directory''),
      (''about'', ''Learn about me and my background''),
      (''cat'', ''Display content of a file (e.g., cat README.md)''),
      (''cd'', ''Change directory (e.g., cd js, cd ..)''),
      (''clear'', ''Clear the terminal''),
      (''echo'', ''Print text to the terminal''),
      (''education'', ''Show my educational background''),
      (''email'', ''Open your email client to contact me''),
      (''github'', ''Open my GitHub profile''),
      (''help'', ''Show this help message''),
      (''history'', ''Show command history''),
      (''linkedin'', ''Open my LinkedIn profile''),
      (''ls'', ''List directory contents''),
      (''pwd'', ''Print current working directory''),
      (''themes'', ''Change the terminal theme (coming soon)''),
      (''welcome'', ''Display the welcome message''),
      (''whoami'', ''Display the current user'')]"

definition getFileCompletions :: "remote \<Rightarrow> string \<Rightarrow> state \<Rightarrow> (error + string list) \<times> state" where
  "getFileCompletions remote partial st =
     (case getDirectoryContents remote (currentDirectory st) st of
        (None, st1) \<Rightarrow> (Inr [], st1)
      | (Some contents, st1) \<Rightarrow>
          (case as_array contents of
             Inl e \<Rightarrow> (Inl e, st1)
           | Inr items \<Rightarrow>
               (Inr (map item_name
                      (filter (\<lambda>item. item_type item = ''file''
                                 \<and> js_startsWith (item_name item) partial) items)),
                st1)))"

definition getThemeCompletions :: "string \<Rightarrow> string list" where
  "getThemeCompletions partial = filter (\<lambda>t. js_startsWith t partial) (map fst themes)"

definition getDirectoryCompletions :: "remote \<Rightarrow> string \<Rightarrow> state \<Rightarrow> (error + string list) \<times> state" where
  "getDirectoryCompletions remote partial st =
     (case getDirectoryContents remote (currentDirectory st) st of
        (None, st1) \<Rightarrow> (Inr [], st1)
      | (Some contents, st1) \<Rightarrow>
          (case as_array contents of
             Inl e \<Rightarrow> (Inl e, st1)
           | Inr items \<Rightarrow>
               (let directories =
                      map item_name
                        (filter (\<lambda>item. item_type item = ''dir''
                                   \<and> js_startsWith (item_name item) partial) items)
                in (Inr (if currentDirectory st1 \<noteq> ''/'' \<and> js_startsWith ''..'' partial
                         then ''..'' # directories else directories),
                    st1))))"

text \<open>\<open>parts[1] || ''\<close>: the second part, or the empty string when there is none.\<close>

fun second_or_empty :: "string list \<Rightarrow> string" where
  "second_or_empty (p # a # rest) = a"
| "second_or_empty _ = []"

definition getAutocompleteSuggestions :: "remote \<Rightarrow> string \<Rightarrow> state \<Rightarrow> (error + string list) \<times> state" where
  "getAutocompleteSuggestions remote input st =
     (let parts = js_split (CHR '' '') (js_trim input);
          command = js_toLowerCase (hd parts);
          arg = second_or_empty parts
      in if length parts = 1
         then (Inr (filter (\<lambda>c. js_startsWith c command) (map fst commandList)), st)
         else if length parts = 2
         then (if command = ''cat'' then getFileCompletions remote arg st
               else if command = ''themes'' then (Inr (getThemeCompletions arg), st)
               else if command = ''cd'' then getDirectoryCompletions remote arg st
               else (Inr [], st))
         else (Inr [], st))"

section \<open>The command interpreter (terminal-logic.js, in src/js/main.js)\<close>

text \<open>
  \<open>handleCommand\<close> is an asynchronous function; here one call runs to its end
  before anything else happens, and the requests it awaits are answered by
  \<open>remote\<close>. A call returns an outcome object, or throws. The page opened by a
  timer is recorded in \<open>opened\<close>.
\<close>

record outcome =
  out_clear :: bool
  out_currentDirectory :: "string option"

definition appendChild :: "line list \<Rightarrow> state \<Rightarrow> state" where
  "appendChild ls st = st\<lparr>terminal := terminal st @ ls\<rparr>"

text \<open>The directory shown in a prompt.\<close>

definition dirDisplay :: "string \<Rightarrow> string" where
  "dirDisplay dir = (if dir = ''/'' then ''~'' else ''~'' @ dir)"

text \<open>\<open>args[0]\<close>, with \<open>undefined\<close> as \<open>None\<close>.\<close>

fun first_arg :: "string list \<Rightarrow> string option" where
  "first_arg [] = None"
| "first_arg (a # rest) = Some a"

subsection \<open>Directory listing and file reading\<close>

definition ls_line :: "item \<Rightarrow> line" where
  "ls_line item =
     (if item_type item = ''dir'' then Html ''dir'' [item_name item]
      else Text (item_name item))"

definition cmd_ls :: "remote \<Rightarrow> state \<Rightarrow> (error + unit) \<times> state" where
  "cmd_ls remote st =
     (case getDirectoryContents remote (currentDirectory st) st of
        (None, st1) \<Rightarrow>
          (Inr (), appendChild [Text ''Error: Could not list directory contents.''] st1)
      | (Some contents, st1) \<Rightarrow>
          (case as_array contents of
             Inl e \<Rightarrow> (Inl e, st1)
           | Inr items \<Rightarrow> (Inr (), appendChild (map ls_line items) st1)))"

definition cat_tip :: "remote \<Rightarrow> state \<Rightarrow> (error + unit) \<times> state" where
  "cat_tip remote st =
     (case getDirectoryContents remote (currentDirectory st) st of
        (None, st1) \<Rightarrow> (Inr (), st1)
      | (Some contents, st1) \<Rightarrow>
          (case as_array contents of
             Inl e \<Rightarrow> (Inl e, st1)
           | Inr items \<Rightarrow>
               (let availableFiles =
                      map item_name (filter (\<lambda>item. item_type item = ''file'') items)
                in if length availableFiles > 0
                   then (Inr (), appendChild [Html ''available files'' availableFiles] st1)
                   else (Inr (), st1))))"

definition cmd_cat :: "remote \<Rightarrow> string list \<Rightarrow> state \<Rightarrow> (error + unit) \<times> state" where
  "cmd_cat remote args st =
     (if \<not> truthy (first_arg args)
      then (Inr (), appendChild [Html ''cat usage'' [], Html ''cat tip'' []] st)
      else
        (let filename = the (first_arg args);
             filePath = (if currentDirectory st = ''/'' then ''/'' @ filename
                         else currentDirectory st @ ''/'' @ filename)
         in case getFileContent remote filePath st of
              (Some fileContent, st1) \<Rightarrow> (Inr (), appendChild [Pre fileContent] st1)
            | (None, st1) \<Rightarrow>
                cat_tip remote (appendChild [Html ''file not found'' [filename]] st1)))"

subsection \<open>Changing the directory\<close>

text \<open>
  The four steps of the \<open>cd\<close> case: the target (\<open>args[0] || '/'\<close>), the
  candidate path, and the candidate's parent path and leaf name.
\<close>

definition cd_targetDir :: "string list \<Rightarrow> string" where
  "cd_targetDir args = (if truthy (first_arg args) then the (first_arg args) else ''/'')"

definition cd_newPath :: "string \<Rightarrow> string \<Rightarrow> string" where
  "cd_newPath dir targetDir =
     (if targetDir = ''..''
      then (let p = js_substring dir 0 (js_lastIndexOf dir (CHR ''/''))
            in if p = [] then ''/'' else p)
      else if js_startsWith targetDir ''/'' then targetDir
      else if dir = ''/'' then ''/'' @ targetDir
      else dir @ ''/'' @ targetDir)"

definition cd_parentPath :: "string \<Rightarrow> string" where
  "cd_parentPath newPath =
     (let p = js_substring newPath 0 (js_lastIndexOf newPath (CHR ''/''))
      in if p = [] then ''/'' else p)"

definition cd_dirName :: "string \<Rightarrow> string" where
  "cd_dirName newPath = js_substring_from newPath (js_lastIndexOf newPath (CHR ''/'') + 1)"

text \<open>
  \<open>parentContents && parentContents.find(...)\<close> is evaluated before the test for
  the root, so a parent that is not an array makes the call throw for every target.
\<close>

definition is_dir_named :: "string \<Rightarrow> item \<Rightarrow> bool" where
  "is_dir_named dirName item = (item_name item = dirName \<and> item_type item = ''dir'')"

definition cd_finish :: "string \<Rightarrow> string \<Rightarrow> bool \<Rightarrow> state \<Rightarrow> (error + unit) \<times> state" where
  "cd_finish targetDir newPath targetIsDirectory st =
     (if newPath = ''/'' \<or> targetIsDirectory
      then (Inr (), st\<lparr>currentDirectory := newPath\<rparr>)
      else (Inr (), appendChild [Text (''cd: no such file or directory: '' @ targetDir)] st))"

definition cmd_cd :: "remote \<Rightarrow> string list \<Rightarrow> state \<Rightarrow> (error + unit) \<times> state" where
  "cmd_cd remote args st =
     (let targetDir = cd_targetDir args;
          newPath = cd_newPath (currentDirectory st) targetDir;
          parentPath = cd_parentPath newPath;
          dirName = cd_dirName newPath
      in case getDirectoryContents remote parentPath st of
           (None, st1) \<Rightarrow> cd_finish targetDir newPath False st1
         | (Some parentContents, st1) \<Rightarrow>
             (case as_array parentContents of
                Inl e \<Rightarrow> (Inl e, st1)
              | Inr items \<Rightarrow>
                  cd_finish targetDir newPath
                    (list_ex (is_dir_named dirName) items)
                    st1))"

subsection \<open>The other commands\<close>

text \<open>
  The \<open>clear\<close> case empties the terminal and appends a prompt it creates. Every
  prompt line is an element of its own: \<open>promptElements\<close> counts the prompt elements
  created so far, and the prompt of the terminal, when it has one, is the last of them.
\<close>

definition cmd_clear :: "state \<Rightarrow> state" where
  "cmd_clear st =
     st\<lparr>terminal := [Prompt (dirDisplay (currentDirectory st)) []],
        promptElements := promptElements st + 1\<rparr>"

definition cmd_help :: "state \<Rightarrow> state" where
  "cmd_help st =
     appendChild
       ([Text ''Available commands:'', Break]
        @ map (\<lambda>(cmd, desc). Html ''help line'' [cmd, desc]) commandList
        @ [Html ''pro tips'' []]) st"

definition cmd_history :: "state \<Rightarrow> state" where
  "cmd_history st =
     appendChild
       (map (\<lambda>(i, cmd). Numbered (i + 1) cmd)
          (zip [0 ..< length (commandHistory st)] (commandHistory st))) st"

definition cmd_themes :: "string list \<Rightarrow> state \<Rightarrow> (error + unit) \<times> state" where
  "cmd_themes args st =
     (if \<not> truthy (first_arg args)
      then (case themes_get (getCurrentTheme st) of
              None \<Rightarrow> (Inl TypeError, st)
            | Some v \<Rightarrow>
                (Inr (),
                 appendChild
                   ([Html ''available themes'' [property_name v], Break]
                    @ map (\<lambda>(key, n, description).
                             Html ''theme line''
                               [key @ (if key = getCurrentTheme st then '' (active)'' else []),
                                description])
                        getThemesList
                    @ [Html ''themes usage'' []]) st))
      else
        (let themeArg = the (first_arg args)
         in case setTheme themeArg st of
              (True, st1) \<Rightarrow>
                (case themes_get themeArg of
                   None \<Rightarrow> (Inl TypeError, st1)
                 | Some v \<Rightarrow>
                     (Inr (),
                      appendChild
                        [Html ''theme changed'' [property_name v, property_description v]] st1))
            | (False, st1) \<Rightarrow>
                (Inr (), appendChild [Html ''theme not found'' [themeArg]] st1)))"

definition cmd_default :: "string \<Rightarrow> state \<Rightarrow> state" where
  "cmd_default trimmedInput st =
     (if js_toLowerCase trimmedInput = ''about me''
      then appendChild [Opaque ''about me''] st
      else appendChild [Text (''Command not found: '' @ trimmedInput)] st)"

text \<open>The body of the \<open>switch\<close>, for every command but \<open>clear\<close>, in its order.\<close>

definition run_case :: "remote \<Rightarrow> string \<Rightarrow> string list \<Rightarrow> string \<Rightarrow> state \<Rightarrow> (error + unit) \<times> state" where
  "run_case remote normalizedCommand args trimmedInput st =
     (if normalizedCommand = ''.''
      then (Inr (),
            (appendChild
               [Text (''Opening directory '' @ [CHR 0x27] @ currentDirectory st @ [CHR 0x27]
                      @ '' in repository...'')] st)
            \<lparr>opened := opened st
                 @ [''https://github.com/Peetzie/whoami.sh/tree/main'' @ currentDirectory st]\<rparr>)
      else if normalizedCommand = ''ls'' then cmd_ls remote st
      else if normalizedCommand = ''cat'' then cmd_cat remote args st
      else if normalizedCommand = ''cd'' then cmd_cd remote args st
      else if normalizedCommand = ''help'' then (Inr (), cmd_help st)
      else if normalizedCommand = ''history'' then (Inr (), cmd_history st)
      else if normalizedCommand = ''github''
      then (Inr (),
            (appendChild [Text ''Opening GitHub profile in a new window...''] st)
            \<lparr>opened := opened st @ [''https://github.com/Peetzie'']\<rparr>)
      else if normalizedCommand = ''linkedin''
      then (Inr (),
            (appendChild [Text ''Opening LinkedIn profile...''] st)
            \<lparr>opened := opened st
                 @ [''https://www.linkedin.com/in/frederikpeetzschoularsen/'']\<rparr>)
      else if normalizedCommand = ''pwd''
      then (Inr (),
            appendChild
              [Text (''/home/guest''
                     @ (if currentDirectory st = ''/'' then [] else currentDirectory st))] st)
      else if normalizedCommand = ''themes'' then cmd_themes args st
      else if normalizedCommand = ''welcome'' then (Inr (), appendChild [WelcomeMessage] st)
      else if normalizedCommand = ''whoami'' then (Inr (), appendChild [Text ''guest''] st)
      else if normalizedCommand = ''about'' then (Inr (), appendChild [Opaque ''about''] st)
      else if normalizedCommand = ''education''
      then (Inr (), appendChild [Opaque ''education''] st)
      else if normalizedCommand = ''email''
      then (Inr (),
            (appendChild [Text ''Opening email client...''] st)
            \<lparr>opened := opened st @ [''mailto:flarsen.uphold283@simplelogin.com'']\<rparr>)
      else if normalizedCommand = ''echo''
      then (Inr (), appendChild [Text (js_join '' '' args)] st)
      else (Inr (), cmd_default trimmedInput st))"

text \<open>
  The \<open>clear\<close> case returns from inside the \<open>switch\<close>; every other case
  reaches the \<open>return\<close> after it.
\<close>

definition handleCommand :: "remote \<Rightarrow> string \<Rightarrow> state \<Rightarrow> (error + outcome) \<times> state" where
  "handleCommand remote input st =
     (let trimmedInput = js_trim input;
          parts = js_split (CHR '' '') trimmedInput;
          command = hd parts;
          args = tl parts;
          normalizedCommand = js_toLowerCase command
      in if normalizedCommand = ''clear''
         then (Inr \<lparr>out_clear = True, out_currentDirectory = None\<rparr>, cmd_clear st)
         else
           (case run_case remote normalizedCommand args trimmedInput st of
              (Inl e, st1) \<Rightarrow> (Inl e, st1)
            | (Inr u, st1) \<Rightarrow>
                (Inr \<lparr>out_clear = False, out_currentDirectory = Some (currentDirectory st1)\<rparr>,
                 st1)))"

definition resetCommandHistory :: "state \<Rightarrow> state" where
  "resetCommandHistory st = st\<lparr>commandHistory := [], historyIndex := - 1\<rparr>"

definition resetTerminal :: "state \<Rightarrow> state" where
  "resetTerminal st =
     (appendChild [Prompt ''~'' []]
        ((resetCommandHistory (appendChild [WelcomeMessage] (st\<lparr>terminal := []\<rparr>)))
           \<lparr>currentDirectory := ''/'', fileSystemCache := Map.empty\<rparr>))
       \<lparr>promptElements := promptElements st + 1\<rparr>"

section \<open>The input controller (src/js/terminal-events.js)\<close>

text \<open>
  \<open>document.getElementById('user-input')\<close> is the span of the first prompt line of
  the terminal, when there is one; its closest \<open>.prompt\<close> is that line.
\<close>

fun is_prompt :: "line \<Rightarrow> bool" where
  "is_prompt (Prompt d x) = True"
| "is_prompt l = False"

definition hasUserInputSpan :: "state \<Rightarrow> bool" where
  "hasUserInputSpan st = list_ex is_prompt (terminal st)"

text \<open>
  The \<open>keydown\<close> handler looks the span up once and hands it to the functions it
  calls, one of which goes on after an \<open>await\<close>. The span is kept by the number of
  its prompt element, \<open>None\<close> being \<open>null\<close>. It is attached while its prompt is
  the one in the terminal; the prompt leaves the terminal when the command echo
  replaces it and when the terminal is emptied, and the prompt that follows is another
  element.
\<close>

definition userInputSpan :: "state \<Rightarrow> nat option" where
  "userInputSpan st = (if hasUserInputSpan st then Some (promptElements st) else None)"

definition attached :: "nat option \<Rightarrow> state \<Rightarrow> bool" where
  "attached span st = (span \<noteq> None \<and> span = userInputSpan st)"

text \<open>\<open>if (userInputSpan) userInputSpan.textContent = v\<close>\<close>

fun setTextContent :: "string \<Rightarrow> line list \<Rightarrow> line list" where
  "setTextContent v [] = []"
| "setTextContent v (Prompt d x # ls) = Prompt d v # ls"
| "setTextContent v (l # ls) = l # setTextContent v ls"

text \<open>
  \<open>currentPrompt.insertAdjacentElement('afterend', ...)\<close> and the replacement of
  the prompt by the command echo. Without a span \<open>userInputSpan.closest\<close> throws
  and nothing is inserted.
\<close>

fun insertAfterPrompt :: "line list \<Rightarrow> line list \<Rightarrow> line list" where
  "insertAfterPrompt new [] = []"
| "insertAfterPrompt new (Prompt d x # ls) = Prompt d x # new @ ls"
| "insertAfterPrompt new (l # ls) = l # insertAfterPrompt new ls"

fun replacePrompt :: "line \<Rightarrow> line list \<Rightarrow> line list" where
  "replacePrompt e [] = []"
| "replacePrompt e (Prompt d x # ls) = e # ls"
| "replacePrompt e (l # ls) = l # replacePrompt e ls"

fun is_completion_display :: "line \<Rightarrow> bool" where
  "is_completion_display (CompletionSuggestions s) = True"
| "is_completion_display (CompletionIndicator i s) = True"
| "is_completion_display l = False"

definition removeCompletionDisplays :: "state \<Rightarrow> state" where
  "removeCompletionDisplays st =
     st\<lparr>terminal := filter (\<lambda>l. \<not> is_completion_display l) (terminal st)\<rparr>"

text \<open>
  \<open>xs[i]\<close> is \<open>undefined\<close> outside the array. Assigned to the \<open>value\<close> of an
  input element \<open>undefined\<close> reads back as that word, assigned to a
  \<open>textContent\<close> as the empty string.
\<close>

definition js_index :: "string list \<Rightarrow> int \<Rightarrow> string option" where
  "js_index xs i = (if 0 \<le> i \<and> i < int (length xs) then Some (xs ! nat i) else None)"

fun as_value :: "string option \<Rightarrow> string" where
  "as_value None = ''undefined''"
| "as_value (Some s) = s"

fun as_textContent :: "string option \<Rightarrow> string" where
  "as_textContent None = []"
| "as_textContent (Some s) = s"

text \<open>The remainder operator \<open>%\<close> truncates towards zero.\<close>

definition js_rem :: "int \<Rightarrow> int \<Rightarrow> int" where
  "js_rem a b = (if a < 0 then - ((- a) mod \<bar>b\<bar>) else a mod \<bar>b\<bar>)"

text \<open>
  \<open>createPromptHTML\<close> with its input area is the prompt line with an empty span.
  Without the input area its result is followed by the command: the line \<open>Echo\<close>.
\<close>

definition createPromptHTML :: "string \<Rightarrow> line" where
  "createPromptHTML dir = Prompt (dirDisplay dir) []"

definition commandEcho :: "string \<Rightarrow> string \<Rightarrow> line" where
  "commandEcho dir command = Echo (dirDisplay dir) command"

definition getCurrentDirectory :: "state \<Rightarrow> string" where
  "getCurrentDirectory st = currentDirectory st"

subsection \<open>Autocompletion sessions\<close>

definition resetAutocompleteState :: "state \<Rightarrow> state" where
  "resetAutocompleteState st =
     removeCompletionDisplays
       (st\<lparr>autocompleteSuggestions := [], autocompleteIndex := - 1,
           autocompleteBaseInput := []\<rparr>)"

definition getBaseInput :: "string \<Rightarrow> string" where
  "getBaseInput input =
     (let parts = js_split (CHR '' '') (js_trim input)
      in if length parts = 1 then [] else js_join '' '' (butlast parts))"

text \<open>The new value of the input buffer when a completion is applied to it.\<close>

definition completed :: "string \<Rightarrow> string \<Rightarrow> string" where
  "completed v completion =
     (let parts = js_split (CHR '' '') (js_trim v)
      in if length parts = 1 then completion @ '' ''
         else js_join '' '' (parts[length parts - 1 := completion]) @ '' '')"

text \<open>
  \<open>if (userInputSpan) userInputSpan.textContent = v\<close>, for a span handed over: the
  text of a detached span is not shown anywhere.
\<close>

definition setSpanText :: "nat option \<Rightarrow> string \<Rightarrow> state \<Rightarrow> state" where
  "setSpanText span v st =
     (if attached span st then st\<lparr>terminal := setTextContent v (terminal st)\<rparr> else st)"

text \<open>
  \<open>userInputSpan.closest('.prompt')\<close> followed by
  \<open>insertAdjacentElement('afterend', ...)\<close>: the first throws on \<open>null\<close>, the
  second inserts nothing after a prompt that has no parent. Either way the terminal
  stays as it is, and each caller has nothing left to do after the call.
\<close>

definition insertAfterPromptOf :: "nat option \<Rightarrow> line list \<Rightarrow> state \<Rightarrow> state" where
  "insertAfterPromptOf span new st =
     (if attached span st then st\<lparr>terminal := insertAfterPrompt new (terminal st)\<rparr> else st)"

definition applyCompletion :: "nat option \<Rightarrow> string \<Rightarrow> state \<Rightarrow> state" where
  "applyCompletion span completion st =
     (let v = completed (hiddenInput st) completion
      in setSpanText span v (st\<lparr>hiddenInput := v\<rparr>))"

definition showCompletionOptions :: "nat option \<Rightarrow> string list \<Rightarrow> int \<Rightarrow> state \<Rightarrow> state" where
  "showCompletionOptions span suggestions currentIndex st =
     insertAfterPromptOf span
       [CompletionSuggestions suggestions, CompletionIndicator currentIndex suggestions]
       (removeCompletionDisplays st)"

definition showNoMatchesMessage :: "nat option \<Rightarrow> state \<Rightarrow> state" where
  "showNoMatchesMessage span st = insertAfterPromptOf span [Text ''No completions found''] st"

definition cycleToNextSuggestion :: "nat option \<Rightarrow> state \<Rightarrow> state" where
  "cycleToNextSuggestion span st =
     (if autocompleteSuggestions st = [] then st
      else
        (let i = js_rem (autocompleteIndex st + 1) (int (length (autocompleteSuggestions st)));
             st1 = st\<lparr>autocompleteIndex := i\<rparr>;
             st2 = applyCompletion span (as_value (js_index (autocompleteSuggestions st1) i)) st1
         in showCompletionOptions span (autocompleteSuggestions st2) i st2))"

text \<open>
  \<open>startNewAutocompleteSession\<close> awaits the suggestions. The part of its body after
  the \<open>await\<close> is \<open>resumeAutocompleteSession\<close>: it runs when the awaited call has
  returned the suggestions, on the state of that moment, with the \<open>currentInput\<close>
  and the span of the moment of the request. Run without anything in between, the two
  parts are \<open>startNewAutocompleteSession\<close>; a rejected request leaves the state as
  it is.
\<close>

definition resumeAutocompleteSession :: "nat option \<Rightarrow> string list \<Rightarrow> string \<Rightarrow> state \<Rightarrow> state" where
  "resumeAutocompleteSession span suggestions currentInput st =
     (if length suggestions = 0 then showNoMatchesMessage span st
      else
        (let st1 = st\<lparr>autocompleteSuggestions := suggestions, autocompleteIndex := 0,
                       autocompleteBaseInput := getBaseInput currentInput\<rparr>
         in if length suggestions = 1
            then resetAutocompleteState (applyCompletion span (hd suggestions) st1)
            else showCompletionOptions span suggestions 0
                   (applyCompletion span (hd suggestions) st1)))"

definition startNewAutocompleteSession :: "remote \<Rightarrow> nat option \<Rightarrow> string \<Rightarrow> state \<Rightarrow> state" where
  "startNewAutocompleteSession remote span currentInput st =
     (case getAutocompleteSuggestions remote currentInput st of
        (Inl e, st1) \<Rightarrow> st1
      | (Inr suggestions, st1) \<Rightarrow>
          resumeAutocompleteSession span suggestions currentInput st1)"

subsection \<open>Events\<close>

text \<open>The \<open>input\<close> event, after the browser has put \<open>v\<close> into the input element.\<close>

definition input_event :: "string \<Rightarrow> state \<Rightarrow> state" where
  "input_event v st =
     resetAutocompleteState (st\<lparr>hiddenInput := v, terminal := setTextContent v (terminal st)\<rparr>)"

definition key_ctrl_l :: "state \<Rightarrow> state" where
  "key_ctrl_l st =
     (resetAutocompleteState st)
       \<lparr>terminal := [createPromptHTML (getCurrentDirectory st)],
        promptElements := promptElements st + 1, hiddenInput := []\<rparr>"

definition key_ArrowUp :: "state \<Rightarrow> state" where
  "key_ArrowUp st =
     (if length (commandHistory st) > 0
         \<and> historyIndex st < int (length (commandHistory st)) - 1
      then
        (let i = historyIndex st + 1;
             historicalCommand =
               js_index (commandHistory st) (int (length (commandHistory st)) - 1 - i)
         in st\<lparr>historyIndex := i, hiddenInput := as_value historicalCommand,
               terminal := setTextContent (as_textContent historicalCommand) (terminal st)\<rparr>)
      else st)"

definition key_ArrowDown :: "state \<Rightarrow> state" where
  "key_ArrowDown st =
     (if historyIndex st > 0
      then
        (let i = historyIndex st - 1;
             historicalCommand =
               js_index (commandHistory st) (int (length (commandHistory st)) - 1 - i)
         in st\<lparr>historyIndex := i, hiddenInput := as_value historicalCommand,
               terminal := setTextContent (as_textContent historicalCommand) (terminal st)\<rparr>)
      else if historyIndex st = 0
      then st\<lparr>historyIndex := - 1, hiddenInput := [],
              terminal := setTextContent [] (terminal st)\<rparr>
      else st)"

definition newPrompt :: "state \<Rightarrow> state" where
  "newPrompt st =
     (appendChild [createPromptHTML (getCurrentDirectory st)] st)
       \<lparr>promptElements := promptElements st + 1, hiddenInput := []\<rparr>"

text \<open>
  The Enter key. An exception of \<open>handleCommand\<close> is caught; the span of the prompt
  is dereferenced outside the \<open>try\<close>, so without a prompt the handler stops there.
\<close>

definition key_Enter :: "remote \<Rightarrow> state \<Rightarrow> state" where
  "key_Enter remote st =
     (let st1 = resetAutocompleteState st;
          command = js_trim (hiddenInput st1)
      in if command = [] then st1
         else
           (let st2 = st1\<lparr>commandHistory := commandHistory st1 @ [command],
                          historyIndex := - 1\<rparr>
            in if js_toLowerCase command = ''clear''
               then (case handleCommand remote command st2 of
                       (Inl e, st3) \<Rightarrow> st3
                     | (Inr result, st3) \<Rightarrow>
                         (if out_clear result then st3\<lparr>hiddenInput := []\<rparr> else st3))
               else if \<not> hasUserInputSpan st2 then st2
               else
                 (let st3 = st2\<lparr>terminal :=
                                  replacePrompt
                                    (commandEcho (getCurrentDirectory st2) command)
                                    (terminal st2)\<rparr>
                  in case handleCommand remote command st3 of
                       (Inl e, st4) \<Rightarrow>
                         newPrompt (appendChild [Text ''Error executing command.''] st4)
                     | (Inr result, st4) \<Rightarrow>
                         (if out_clear result then st4 else newPrompt st4))))"

text \<open>
  The \<open>keydown\<close> handler, from the state of the control key and the key's name. The
  keys of the history and the Enter key use the span in the handler itself, where it
  is the span of the prompt in the terminal.
\<close>

definition keydown :: "remote \<Rightarrow> bool \<Rightarrow> string \<Rightarrow> state \<Rightarrow> state" where
  "keydown remote ctrlKey key st =
     (if ctrlKey \<and> js_toLowerCase key = ''u''
      then
        (let currentInput = js_trim (hiddenInput st)
         in if currentInput = [] then st
            else if length (autocompleteSuggestions st) > 0
                    \<and> autocompleteBaseInput st = getBaseInput currentInput
            then cycleToNextSuggestion (userInputSpan st) st
            else startNewAutocompleteSession remote (userInputSpan st) currentInput st)
      else
        (let st1 = resetAutocompleteState st
         in if ctrlKey \<and> js_toLowerCase key = ''l'' then key_ctrl_l st1
            else
              (let st2 = (if key = ''ArrowUp'' then key_ArrowUp st1
                          else if key = ''ArrowDown'' then key_ArrowDown st1
                          else st1)
               in if key = ''Enter'' then key_Enter remote st2 else st2)))"

text \<open>A line is submitted by typing it and pressing Enter.\<close>

definition submit :: "remote \<Rightarrow> string \<Rightarrow> state \<Rightarrow> state" where
  "submit remote l st = keydown remote False ''Enter'' (input_event l st)"

section \<open>Start-up, and the notions the properties are stated with\<close>

text \<open>
  The values the modules give their variables when they are loaded, with an empty
  terminal element and an empty \<open>localStorage\<close>; and the state after the
  \<open>DOMContentLoaded\<close> handler of main.js.
\<close>

definition initial_state :: state where
  "initial_state =
     \<lparr>currentDirectory = ''/'', fileSystemCache = Map.empty, commandHistory = [],
      historyIndex = - 1, autocompleteSuggestions = [], autocompleteIndex = - 1,
      autocompleteBaseInput = [], hiddenInput = [], terminal = [],
      currentTheme = ''catppuccin-mocha'', dataTheme = None, savedTheme = None,
      opened = [], promptElements = 0\<rparr>"

definition startup :: state where
  "startup = resetTerminal (loadSavedTheme initial_state)"

text \<open>The command and the arguments \<open>handleCommand\<close> reads from a line.\<close>

definition command_of :: "string \<Rightarrow> string" where
  "command_of input = js_toLowerCase (hd (js_split (CHR '' '') (js_trim input)))"

definition args_of :: "string \<Rightarrow> string list" where
  "args_of input = tl (js_split (CHR '' '') (js_trim input))"

text \<open>The candidate path of a line that changes the directory.\<close>

definition cd_candidate :: "state \<Rightarrow> string \<Rightarrow> string" where
  "cd_candidate st input = cd_newPath (currentDirectory st) (cd_targetDir (args_of input))"

text \<open>
  What \<open>getDirectoryContents\<close> returns for the candidate's parent, and the
  candidate's leaf name.
\<close>

definition parent_listing :: "remote \<Rightarrow> state \<Rightarrow> string \<Rightarrow> json option" where
  "parent_listing remote st input =
     fst (getDirectoryContents remote (cd_parentPath (cd_candidate st input)) st)"

definition cd_leaf :: "state \<Rightarrow> string \<Rightarrow> string" where
  "cd_leaf st input = cd_dirName (cd_candidate st input)"

text \<open>
  A remote for the examples: the root holds the file \<open>README.md\<close> (with the
  content \<open>hi\<close>) and the directory \<open>js\<close>, which holds two files; the content of
  \<open>broken.bin\<close> is not base64.
\<close>

definition root_listing :: "item list" where
  "root_listing =
     [\<lparr>item_name = ''README.md'', item_type = ''file''\<rparr>,
      \<lparr>item_name = ''js'', item_type = ''dir''\<rparr>]"

definition example_remote :: remote where
  "example_remote path =
     (if path = ''/'' then Some (Listing root_listing)
      else if path = ''/js''
      then Some (Listing [\<lparr>item_name = ''main.js'', item_type = ''file''\<rparr>,
                          \<lparr>item_name = ''terminal-events.js'', item_type = ''file''\<rparr>])
      else if path = ''/README.md'' then Some (Object ''file'' (Some ''aGk=''))
      else if path = ''/broken.bin'' then Some (Object ''file'' (Some ''!''))
      else None)"

text \<open>The parts a line is split into: trimmed, then cut at every single space.\<close>

definition tokens :: "string \<Rightarrow> string list" where
  "tokens input = js_split (CHR '' '') (js_trim input)"



definition submissions :: "remote \<Rightarrow> string list \<Rightarrow> state \<Rightarrow> state" where
  "submissions remote ls st = foldl (\<lambda>s l. submit remote l s) st ls"

definition session_kept :: "state \<Rightarrow> state \<Rightarrow> bool" where
  "session_kept st st' =
     (commandHistory st' = commandHistory st \<and> historyIndex st' = historyIndex st
      \<and> hiddenInput st' = hiddenInput st)"

text \<open>
  Properties of a path: it starts with a slash; it is the root or does not end with a
  slash; it is normalized, which is to say that the parts between its slashes are
  neither empty nor a dot segment.
\<close>

definition absolute :: "string \<Rightarrow> bool" where
  "absolute p = js_startsWith p ''/''"

definition no_trailing_slash :: "string \<Rightarrow> bool" where
  "no_trailing_slash p = (p = ''/'' \<or> (p \<noteq> [] \<and> last p \<noteq> CHR ''/''))"

definition normalized :: "string \<Rightarrow> bool" where
  "normalized p =
     (absolute p
      \<and> (p = ''/''
          \<or> list_all (\<lambda>s. s \<noteq> [] \<and> s \<noteq> ''.'' \<and> s \<noteq> ''..'') (js_split (CHR ''/'') (tl p))))"

text \<open>
  No item of a listing has the empty name; this holds of the answers of the remote and
  of the entries of the cache.
\<close>

fun names_nonempty :: "json \<Rightarrow> bool" where
  "names_nonempty (Listing items) = list_all (\<lambda>item. item_name item \<noteq> []) items"
| "names_nonempty (Object t c) = True"

definition remote_names_nonempty :: "remote \<Rightarrow> bool" where
  "remote_names_nonempty remote = (\<forall>path data. remote path = Some data \<longrightarrow> names_nonempty data)"

definition cache_names_nonempty :: "state \<Rightarrow> bool" where
  "cache_names_nonempty st =
     (\<forall>path data. fileSystemCache st path = Some data \<longrightarrow> names_nonempty data)"

definition directory_invariant :: "state \<Rightarrow> bool" where
  "directory_invariant st =
     (cache_names_nonempty st \<and> absolute (currentDirectory st)
      \<and> no_trailing_slash (currentDirectory st))"

text \<open>
  What a command leaves of the prompts: the prompt lines of the terminal and the
  number of prompt elements created. And the terminal having at most one prompt.
\<close>

definition prompts_kept :: "state \<Rightarrow> state \<Rightarrow> bool" where
  "prompts_kept st st' =
     (filter is_prompt (terminal st') = filter is_prompt (terminal st)
      \<and> promptElements st' = promptElements st)"

definition one_prompt :: "state \<Rightarrow> bool" where
  "one_prompt st = (length (filter is_prompt (terminal st)) \<le> 1)"

section \<open>Facts about the string functions\<close>

lemma js_split_not_Nil: "js_split sep s \<noteq> []"
  by (induction s) (auto split: list.splits)

lemma js_lastIndexOf_append:
  "c \<notin> set seg \<Longrightarrow> js_lastIndexOf (p @ c # seg) c = int (length p)"
proof -
  assume "c \<notin> set seg"
  then have "takeWhile (\<lambda>x. x \<noteq> c) (rev seg @ c # rev p) = rev seg"
    by (auto simp: takeWhile_tail)
  then show ?thesis
    by (simp add: js_lastIndexOf_def)
qed

lemma js_substring_prefix: "js_substring (p @ q) 0 (int (length p)) = p"
  by (simp add: js_substring_def js_clamp_def)

lemma js_substring_from_suffix: "js_substring_from (p @ q) (int (length p)) = q"
  by (simp add: js_substring_from_def js_clamp_def)

lemma js_split_no_sep: "sep \<notin> set s \<Longrightarrow> js_split sep s = [s]"
  by (induction s) auto

lemma js_trim_no_whitespace: "\<forall>c\<in>set s. \<not> js_whitespace c \<Longrightarrow> js_trim s = s"
proof -
  assume a: "\<forall>c\<in>set s. \<not> js_whitespace c"
  have d: "\<And>xs. \<forall>c\<in>set xs. \<not> js_whitespace c \<Longrightarrow> dropWhile js_whitespace xs = xs"
    by (case_tac xs) auto
  from a have "dropWhile js_whitespace s = s" by (rule d)
  moreover from a have "dropWhile js_whitespace (rev s) = rev s" by (intro d) simp
  ultimately show ?thesis by (simp add: js_trim_def)
qed


lemma js_toLowerCase_whitespace: "js_whitespace c \<Longrightarrow> js_toLowerCase_char c = c"
  by (auto simp: js_whitespace_def js_upper_def)

lemma clear_no_whitespace:
  assumes "js_toLowerCase s = ''clear''"
  shows "\<forall>c\<in>set s. \<not> js_whitespace c"
proof
  fix c assume c: "c \<in> set s"
  show "\<not> js_whitespace c"
  proof
    assume w: "js_whitespace c"
    then have "js_toLowerCase_char c = c" by (rule js_toLowerCase_whitespace)
    with c have "c \<in> set (js_toLowerCase s)"
      by (force simp: js_toLowerCase_def)
    with assms have "c \<in> set ''clear''" by simp
    with w show False by (auto simp: js_whitespace_def)
  qed
qed

lemma clear_command_of:
  assumes "js_toLowerCase s = ''clear''"
  shows "command_of s = ''clear''" and "js_trim s = s" and "s \<noteq> []"
proof -
  have nw: "\<forall>c\<in>set s. \<not> js_whitespace c" using assms by (rule clear_no_whitespace)
  then show t: "js_trim s = s" by (rule js_trim_no_whitespace)
  have "\<not> js_whitespace (CHR '' '') \<Longrightarrow> False" by (simp add: js_whitespace_def)
  with nw have "CHR '' '' \<notin> set s" by blast
  then have "js_split (CHR '' '') s = [s]" by (rule js_split_no_sep)
  with t assms show "command_of s = ''clear''" by (simp add: command_of_def)
  from assms show "s \<noteq> []" by (auto simp: js_toLowerCase_def)
qed

section \<open>Path resolution\<close>

lemma cd_newPath_parent:
  "CHR ''/'' \<notin> set seg \<Longrightarrow>
     cd_newPath (p @ ''/'' @ seg) ''..'' = (if p = [] then ''/'' else p)"
  using js_substring_prefix [of p "CHR ''/'' # seg"]
  by (simp add: cd_newPath_def js_lastIndexOf_append)

text \<open>
  Claim C5. The candidate path of a directory change is \<open>cd_newPath\<close> of the working
  directory and the target \<open>cd_targetDir\<close>. A missing or empty argument gives the
  root; a non-empty argument is the target. The target \<open>..\<close> removes the last
  segment of the working directory, with its separator, and the root stays the root. A
  target that starts with a slash is the candidate as it is. Any other target is
  appended to the working directory after one slash, and to the root without a second
  one.
\<close>

theorem cd_path_resolution:
  "(\<not> truthy (first_arg args) \<longrightarrow> cd_newPath dir (cd_targetDir args) = ''/'')
   \<and> (t \<noteq> [] \<longrightarrow> cd_targetDir (t # rest) = t)
   \<and> cd_newPath ''/'' ''..'' = ''/''
   \<and> (CHR ''/'' \<notin> set seg \<longrightarrow>
        cd_newPath (p @ ''/'' @ seg) ''..'' = (if p = [] then ''/'' else p))
   \<and> (js_startsWith t ''/'' \<longrightarrow> cd_newPath dir t = t)
   \<and> (t \<noteq> [] \<and> t \<noteq> ''..'' \<and> \<not> js_startsWith t ''/'' \<longrightarrow>
        cd_newPath dir t = (if dir = ''/'' then ''/'' @ t else dir @ ''/'' @ t))"
proof -
  have root: "\<not> truthy (first_arg args) \<longrightarrow> cd_newPath dir (cd_targetDir args) = ''/''"
    by (simp add: cd_targetDir_def cd_newPath_def js_startsWith_def)
  have target: "t \<noteq> [] \<longrightarrow> cd_targetDir (t # rest) = t"
    by (simp add: cd_targetDir_def)
  have up_root: "cd_newPath ''/'' ''..'' = ''/''"
    by (simp add: cd_newPath_def js_lastIndexOf_def js_substring_def js_clamp_def)
  have absolute: "js_startsWith t ''/'' \<longrightarrow> cd_newPath dir t = t"
    by (auto simp: cd_newPath_def js_startsWith_def)
  have relative: "t \<noteq> [] \<and> t \<noteq> ''..'' \<and> \<not> js_startsWith t ''/'' \<longrightarrow>
        cd_newPath dir t = (if dir = ''/'' then ''/'' @ t else dir @ ''/'' @ t)"
    by (simp add: cd_newPath_def)
  from root target up_root absolute relative cd_newPath_parent [of seg p]
  show ?thesis by blast
qed

theorem cd_path_resolution_witness:
  "\<not> truthy (first_arg []) \<and> cd_newPath ''/js'' (cd_targetDir []) = ''/''
   \<and> cd_targetDir [''js''] = ''js''
   \<and> cd_newPath ''/'' ''..'' = ''/''
   \<and> CHR ''/'' \<notin> set ''css'' \<and> cd_newPath ''/js/css'' ''..'' = ''/js''
   \<and> js_startsWith ''/js'' ''/'' \<and> cd_newPath ''/css'' ''/js'' = ''/js''
   \<and> \<not> js_startsWith ''css'' ''/'' \<and> cd_newPath ''/js'' ''css'' = ''/js/css''
   \<and> cd_newPath ''/'' ''js'' = ''/js''"
  using cd_path_resolution [where args = "[]" and dir = "''/js''" and t = "''js''"
      and rest = "[]" and seg = "''css''" and p = "''/js''"]
    cd_path_resolution [where dir = "''/css''" and t = "''/js''"]
    cd_path_resolution [where dir = "''/js''" and t = "''css''"]
    cd_path_resolution [where dir = "''/''" and t = "''js''"]
  by (simp add: js_startsWith_def)

section \<open>Facts about the interpreter\<close>

lemma handleCommand_eq:
  "handleCommand remote input st =
     (if command_of input = ''clear''
      then (Inr \<lparr>out_clear = True, out_currentDirectory = None\<rparr>, cmd_clear st)
      else (case run_case remote (command_of input) (args_of input) (js_trim input) st of
              (Inl e, st1) \<Rightarrow> (Inl e, st1)
            | (Inr u, st1) \<Rightarrow>
                (Inr \<lparr>out_clear = False, out_currentDirectory = Some (currentDirectory st1)\<rparr>,
                 st1)))"
  by (simp add: handleCommand_def command_of_def args_of_def Let_def)

lemma run_case_cd: "run_case remote ''cd'' args t st = cmd_cd remote args st"
  by (simp add: run_case_def)

lemma getDirectoryContents_currentDirectory [simp]:
  "currentDirectory (snd (getDirectoryContents remote path st)) = currentDirectory st"
  by (simp add: getDirectoryContents_def split: option.splits)

lemma getDirectoryContents_terminal [simp]:
  "terminal (snd (getDirectoryContents remote path st)) = terminal st"
  by (simp add: getDirectoryContents_def split: option.splits)

lemma resetAutocompleteState_session [simp]:
  "commandHistory (resetAutocompleteState st) = commandHistory st"
  "historyIndex (resetAutocompleteState st) = historyIndex st"
  "hiddenInput (resetAutocompleteState st) = hiddenInput st"
  "currentDirectory (resetAutocompleteState st) = currentDirectory st"
  "fileSystemCache (resetAutocompleteState st) = fileSystemCache st"
  by (simp_all add: resetAutocompleteState_def removeCompletionDisplays_def)

section \<open>What the interpreter leaves alone\<close>

lemma session_kept_refl [simp]: "session_kept st st"
  by (simp add: session_kept_def)


lemma session_kept_appendChild [simp]: "session_kept st (appendChild ls st)"
  by (simp add: session_kept_def appendChild_def)










section \<open>A rejected change of directory\<close>

lemma cmd_cd_no_directory:
  assumes "cd_newPath (currentDirectory st) (cd_targetDir args) \<noteq> ''/''"
    and "fst (getDirectoryContents remote
            (cd_parentPath (cd_newPath (currentDirectory st) (cd_targetDir args))) st) = None
         \<or> (\<exists>items. fst (getDirectoryContents remote
            (cd_parentPath (cd_newPath (currentDirectory st) (cd_targetDir args))) st)
              = Some (Listing items)
              \<and> \<not> list_ex (is_dir_named
                     (cd_dirName (cd_newPath (currentDirectory st) (cd_targetDir args)))) items)"
  shows "cmd_cd remote args st =
      (Inr (),
       appendChild [Text (''cd: no such file or directory: '' @ cd_targetDir args)]
         (snd (getDirectoryContents remote
            (cd_parentPath (cd_newPath (currentDirectory st) (cd_targetDir args))) st)))"
  using assms
  by (cases "getDirectoryContents remote
            (cd_parentPath (cd_newPath (currentDirectory st) (cd_targetDir args))) st")
     (auto simp: cmd_cd_def cd_finish_def Let_def split: option.splits sum.splits)

lemma cmd_cd_throws:
  assumes "fst (getDirectoryContents remote
            (cd_parentPath (cd_newPath (currentDirectory st) (cd_targetDir args))) st)
            = Some (Object t c)"
  shows "cmd_cd remote args st =
      (Inl TypeError,
       snd (getDirectoryContents remote
            (cd_parentPath (cd_newPath (currentDirectory st) (cd_targetDir args))) st))"
  using assms
  by (cases "getDirectoryContents remote
            (cd_parentPath (cd_newPath (currentDirectory st) (cd_targetDir args))) st")
     (auto simp: cmd_cd_def Let_def split: option.splits sum.splits)

text \<open>
  A line whose command is \<open>cd\<close>, whose candidate path is not the root and whose
  parent listing could not be fetched, or is an array without a directory of the
  candidate's leaf name, appends the line \<open>cd: no such file or directory\<close> with the
  target, and the working directory after the command is the one before it.
\<close>

lemma cd_no_directory_line:
  assumes "command_of input = ''cd''"
    and "cd_candidate st input \<noteq> ''/''"
    and "parent_listing remote st input = None
         \<or> (\<exists>items. parent_listing remote st input = Some (Listing items)
                \<and> \<not> list_ex (is_dir_named (cd_leaf st input)) items)"
  shows "fst (handleCommand remote input st)
           = Inr \<lparr>out_clear = False, out_currentDirectory = Some (currentDirectory st)\<rparr>
       \<and> terminal (snd (handleCommand remote input st))
           = terminal st @ [Text (''cd: no such file or directory: '' @ cd_targetDir (args_of input))]
       \<and> currentDirectory (snd (handleCommand remote input st)) = currentDirectory st"
proof -
  have "cmd_cd remote (args_of input) st =
      (Inr (),
       appendChild [Text (''cd: no such file or directory: '' @ cd_targetDir (args_of input))]
         (snd (getDirectoryContents remote
            (cd_parentPath (cd_newPath (currentDirectory st) (cd_targetDir (args_of input)))) st)))"
    using assms(2,3)
    by (intro cmd_cd_no_directory) (simp_all add: cd_candidate_def parent_listing_def cd_leaf_def)
  then show ?thesis
    using assms(1) by (simp add: handleCommand_eq run_case_cd appendChild_def)
qed

text \<open>
  When the data under the parent path is an object, not a listing, (a file, which
  \<open>getFileContent\<close> or an earlier \<open>getDirectoryContents\<close> put into the cache or
  the remote answers with) \<open>parentContents.find\<close> is not a function: the call
  throws, no line is appended, and the working directory is again unchanged.
\<close>

lemma cd_throws_keeps_directory:
  assumes "command_of input = ''cd''"
    and "parent_listing remote st input = Some (Object t c)"
  shows "fst (handleCommand remote input st) = Inl TypeError
       \<and> terminal (snd (handleCommand remote input st)) = terminal st
       \<and> currentDirectory (snd (handleCommand remote input st)) = currentDirectory st"
proof -
  have "cmd_cd remote (args_of input) st =
      (Inl TypeError,
       snd (getDirectoryContents remote
            (cd_parentPath (cd_newPath (currentDirectory st) (cd_targetDir (args_of input)))) st))"
    using assms(2)
    by (intro cmd_cd_throws) (simp_all add: cd_candidate_def parent_listing_def)
  then show ?thesis
    using assms(1) by (simp add: handleCommand_eq run_case_cd)
qed

lemma nowhere_command: "command_of ''cd nowhere'' = ''cd''" by code_simp
lemma nowhere_candidate: "cd_candidate startup ''cd nowhere'' = ''/nowhere''" by code_simp
lemma nowhere_parent: "parent_listing example_remote startup ''cd nowhere'' = Some (Listing root_listing)" by code_simp
lemma nowhere_absent: "\<not> list_ex (is_dir_named (cd_leaf startup ''cd nowhere'')) root_listing" by code_simp
lemma startup_currentDirectory: "currentDirectory startup =  ''/''" by code_simp
lemma startup_terminal: "terminal startup = [WelcomeMessage, Prompt ''~'' []]" by code_simp
lemma nowhere_target: "cd_targetDir (args_of ''cd nowhere'') = ''nowhere''" by code_simp

lemma cd_nowhere:
  "command_of ''cd nowhere'' = ''cd''
   \<and> cd_candidate startup ''cd nowhere'' = ''/nowhere''
   \<and> parent_listing example_remote startup ''cd nowhere'' = Some (Listing root_listing)
   \<and> \<not> list_ex (is_dir_named (cd_leaf startup ''cd nowhere'')) root_listing
   \<and> fst (handleCommand example_remote ''cd nowhere'' startup)
       = Inr \<lparr>out_clear = False, out_currentDirectory = Some ''/''\<rparr>
   \<and> terminal (snd (handleCommand example_remote ''cd nowhere'' startup))
       = [WelcomeMessage, Prompt ''~'' [], Text ''cd: no such file or directory: nowhere'']
   \<and> currentDirectory (snd (handleCommand example_remote ''cd nowhere'' startup)) = ''/''"
proof -
  have c: "cd_candidate startup ''cd nowhere'' \<noteq> ''/''" by (simp add: nowhere_candidate)
  have p: "parent_listing example_remote startup ''cd nowhere'' = None
         \<or> (\<exists>items. parent_listing example_remote startup ''cd nowhere'' = Some (Listing items)
                \<and> \<not> list_ex (is_dir_named (cd_leaf startup ''cd nowhere'')) items)"
    using nowhere_parent nowhere_absent by simp
  show ?thesis
    using cd_no_directory_line [OF nowhere_command c p] nowhere_command nowhere_candidate nowhere_parent nowhere_absent startup_currentDirectory startup_terminal nowhere_target by simp
qed

text \<open>
  Claim C7 at the line \<open>cd README.md/x\<close>, submitted at the start: the candidate
  \<open>/README.md/x\<close> is not the root, and its parent \<open>/README.md\<close> is a file, which
  lists no directory \<open>x\<close>. The claim has the command emit the line
  \<open>cd: no such file or directory\<close>. The remote answers the parent path with the
  file object, \<open>parentContents.find\<close> is not a function, and \<open>handleCommand\<close>
  throws; the caller renders its own line instead. The working directory is the root
  as before.
\<close>

theorem cd_under_file_throws:
  "command_of ''cd README.md/x'' = ''cd''
   \<and> cd_candidate startup ''cd README.md/x'' = ''/README.md/x''
   \<and> cd_parentPath ''/README.md/x'' = ''/README.md''
   \<and> cd_leaf startup ''cd README.md/x'' = ''x''
   \<and> parent_listing example_remote startup ''cd README.md/x''
       = Some (Object ''file'' (Some ''aGk=''))
   \<and> fst (handleCommand example_remote ''cd README.md/x'' startup) = Inl TypeError
   \<and> terminal (snd (handleCommand example_remote ''cd README.md/x'' startup))
       = terminal startup
   \<and> terminal (submit example_remote ''cd README.md/x'' startup)
       = [WelcomeMessage, Echo ''~'' ''cd README.md/x'', Text ''Error executing command.'',
          Prompt ''~'' []]
   \<and> currentDirectory (submit example_remote ''cd README.md/x'' startup) = ''/''"
  by code_simp

section \<open>The clear command\<close>

lemma submit_clear:
  assumes "js_toLowerCase (js_trim l) = ''clear''"
  shows "submit remote l st =
     (resetAutocompleteState (input_event l st))
       \<lparr>commandHistory := commandHistory st @ [js_trim l], historyIndex := - 1,
        terminal := [Prompt (dirDisplay (currentDirectory st)) []],
        promptElements := promptElements st + 1, hiddenInput := []\<rparr>"
  using assms clear_command_of [OF assms]
  by (simp add: submit_def keydown_def key_Enter_def Let_def handleCommand_eq cmd_clear_def
      input_event_def resetAutocompleteState_def removeCompletionDisplays_def)

lemma cd_js_state:
  "currentDirectory (submit example_remote ''cd js'' startup) = ''/js''"
  by code_simp

text \<open>
  Claim C1 as stated: executing \<open>clear\<close> resets the history, the history cursor,
  the working directory and the cache to their initial values. It does not: after
  \<open>cd js\<close> and \<open>clear\<close> the working directory is still \<open>/js\<close>, the history
  holds both lines and the cache still holds the listing of the root.
\<close>

theorem clear_keeps_session:
  "currentDirectory (submit example_remote ''clear'' (submit example_remote ''cd js'' startup))
     = ''/js''
   \<and> commandHistory (submit example_remote ''clear'' (submit example_remote ''cd js'' startup))
     = [''cd js'', ''clear'']
   \<and> fileSystemCache (submit example_remote ''clear'' (submit example_remote ''cd js'' startup))
       ''/'' = Some (Listing root_listing)"
  by code_simp

text \<open>
  Claim C1, amended. A line whose command is \<open>clear\<close> makes \<open>handleCommand\<close>
  return the outcome with the flag \<open>clear\<close> set and replace the rendered output by
  one prompt for the working directory, a new element; nothing else of the state
  changes. Submitted
  with the Enter key, the line \<open>clear\<close> (in any case, with surrounding whitespace)
  is appended to the history, the history cursor is at \<open>-1\<close>, the input buffer is
  emptied, and the working directory and the cache are as before. The reset of the
  history, the cursor, the working directory and the cache to their initial values is
  what \<open>resetTerminal\<close> does, which runs at start-up.
\<close>

theorem clear_effect:
  "(command_of input = ''clear'' \<longrightarrow>
      handleCommand remote input st =
        (Inr \<lparr>out_clear = True, out_currentDirectory = None\<rparr>,
         st\<lparr>terminal := [Prompt (dirDisplay (currentDirectory st)) []],
            promptElements := promptElements st + 1\<rparr>))
   \<and> (js_toLowerCase (js_trim l) = ''clear'' \<longrightarrow>
        commandHistory (submit remote l st) = commandHistory st @ [js_trim l]
        \<and> historyIndex (submit remote l st) = - 1
        \<and> currentDirectory (submit remote l st) = currentDirectory st
        \<and> fileSystemCache (submit remote l st) = fileSystemCache st
        \<and> hiddenInput (submit remote l st) = []
        \<and> terminal (submit remote l st) = [Prompt (dirDisplay (currentDirectory st)) []])
   \<and> commandHistory (resetTerminal st) = [] \<and> historyIndex (resetTerminal st) = - 1
   \<and> currentDirectory (resetTerminal st) = ''/''
   \<and> fileSystemCache (resetTerminal st) = Map.empty"
proof -
  have a: "command_of input = ''clear'' \<longrightarrow>
      handleCommand remote input st =
        (Inr \<lparr>out_clear = True, out_currentDirectory = None\<rparr>,
         st\<lparr>terminal := [Prompt (dirDisplay (currentDirectory st)) []],
            promptElements := promptElements st + 1\<rparr>)"
    by (simp add: handleCommand_eq cmd_clear_def)
  have b: "js_toLowerCase (js_trim l) = ''clear'' \<longrightarrow>
        commandHistory (submit remote l st) = commandHistory st @ [js_trim l]
        \<and> historyIndex (submit remote l st) = - 1
        \<and> currentDirectory (submit remote l st) = currentDirectory st
        \<and> fileSystemCache (submit remote l st) = fileSystemCache st
        \<and> hiddenInput (submit remote l st) = []
        \<and> terminal (submit remote l st) = [Prompt (dirDisplay (currentDirectory st)) []]"
    by (simp add: submit_clear input_event_def resetAutocompleteState_def
        removeCompletionDisplays_def)
  have c: "commandHistory (resetTerminal st) = [] \<and> historyIndex (resetTerminal st) = - 1
   \<and> currentDirectory (resetTerminal st) = ''/''
   \<and> fileSystemCache (resetTerminal st) = Map.empty"
    by (simp add: resetTerminal_def resetCommandHistory_def appendChild_def)
  from a b c show ?thesis by blast
qed

lemma clear_upper: "js_toLowerCase (js_trim '' CLEAR '') = ''clear''"
  by code_simp

lemma clear_args: "command_of ''clear now'' = ''clear''"
  by code_simp

lemma cd_js_history: "commandHistory (submit example_remote ''cd js'' startup) = [''cd js'']"
  by code_simp

lemma trim_clear_upper: "js_trim '' CLEAR '' = ''CLEAR''"
  by code_simp

theorem clear_effect_witness:
  "command_of ''clear now'' = ''clear''
   \<and> fst (handleCommand example_remote ''clear now'' (submit example_remote ''cd js'' startup))
       = Inr \<lparr>out_clear = True, out_currentDirectory = None\<rparr>
   \<and> js_toLowerCase (js_trim '' CLEAR '') = ''clear''
   \<and> commandHistory (submit example_remote '' CLEAR '' (submit example_remote ''cd js'' startup))
       = [''cd js'', ''CLEAR'']
   \<and> historyIndex (submit example_remote '' CLEAR '' (submit example_remote ''cd js'' startup))
       = - 1
   \<and> currentDirectory (submit example_remote '' CLEAR '' (submit example_remote ''cd js'' startup))
       = ''/js''
   \<and> terminal (submit example_remote '' CLEAR '' (submit example_remote ''cd js'' startup))
       = [Prompt ''~/js'' []]"
  using clear_effect [where input = "''clear now''" and remote = example_remote
      and st = "submit example_remote ''cd js'' startup" and l = "'' CLEAR ''"]
    clear_upper clear_args cd_js_state cd_js_history trim_clear_upper
  by (simp add: dirDisplay_def)

section \<open>The outcome of a command\<close>

text \<open>
  Claim C2 at the line \<open>clear\<close>: every outcome records the reset flag and the
  working directory. The outcome of \<open>clear\<close> is the object with the flag alone;
  its \<open>currentDirectory\<close> is \<open>undefined\<close>. The \<open>return\<close> every other command
  reaches records both.
\<close>

theorem clear_outcome:
  "fst (handleCommand remote ''clear'' st)
     = Inr \<lparr>out_clear = True, out_currentDirectory = None\<rparr>"
proof -
  have "command_of ''clear'' = ''clear''" by code_simp
  then show ?thesis by (simp add: handleCommand_eq)
qed

lemma other_outcomes:
  assumes "command_of input \<noteq> ''clear''"
    and "handleCommand remote input st = (Inr r, st1)"
  shows "\<not> out_clear r \<and> out_currentDirectory r = Some (currentDirectory st1)"
  using assms by (auto simp: handleCommand_eq split: prod.splits sum.splits)

section \<open>Selecting a theme\<close>

text \<open>
  For an argument that \<open>themes[...]\<close> does not find, in the registry or in the
  prototype, \<open>setTheme\<close> returns false without a change, and the command renders
  the line that says so.
\<close>

lemma themes_get_unknown:
  assumes "themes_get k = None"
  shows "setTheme k st = (False, st)"
  using assms by (simp add: setTheme_def)

lemma run_case_themes: "run_case remote ''themes'' args t st = cmd_themes args st"
  by (simp add: run_case_def)

lemma themes_unknown_command:
  assumes "command_of input = ''themes''" and "args_of input = k # rest" and "k \<noteq> []"
    and "themes_get k = None"
  shows "handleCommand remote input st =
     (Inr \<lparr>out_clear = False, out_currentDirectory = Some (currentDirectory st)\<rparr>,
      appendChild [Html ''theme not found'' [k]] st)"
  using assms
  by (simp add: handleCommand_eq run_case_themes cmd_themes_def setTheme_def appendChild_def
      Let_def)

lemma constructor_lookup: "themes_get ''constructor'' = Some (Inherited (Some ''Object''))"
  by code_simp

lemma constructor_not_registered: "map_of themes ''constructor'' = None"
  by code_simp

lemma constructor_command:
  "command_of ''themes constructor'' = ''themes''"
  "args_of ''themes constructor'' = [''constructor'']"
  by code_simp+

text \<open>
  Claim C10 at the argument \<open>constructor\<close>: it is not a key of the registry, yet
  \<open>themes['constructor']\<close> is the inherited constructor function, which is truthy.
  \<open>setTheme\<close> returns true and changes the active theme, the attribute and the
  stored selection, and the command renders the success line, with the name of that
  function and an undefined description.
\<close>

theorem setTheme_inherited_key:
  "map_of themes ''constructor'' = None
   \<and> setTheme ''constructor'' st =
       (True, st\<lparr>currentTheme := ''constructor'', dataTheme := Some ''constructor'',
                 savedTheme := Some ''constructor''\<rparr>)
   \<and> terminal (snd (handleCommand remote ''themes constructor'' st))
       = terminal st @ [Html ''theme changed'' [''Object'', ''undefined'']]"
  using constructor_lookup constructor_not_registered constructor_command
  by (simp add: setTheme_def handleCommand_eq run_case_themes cmd_themes_def appendChild_def
      Let_def)

section \<open>Reading a file\<close>


text \<open>
  The five cases leave no state and no answer of the remote out: an entry with content
  is cached or not, the request fails or is answered, and the answer is a file with
  content or is not.
\<close>

lemma getFileContent_cases_exhaustive:
  "(\<exists>c. cached_content st path = Some c)
   \<or> (cached_content st path = None
       \<and> (remote path = None
           \<or> (\<exists>d. remote path = Some d
                 \<and> (json_type d \<noteq> Some ''file'' \<or> \<not> truthy (json_content d)))
           \<or> (\<exists>c. remote path = Some (Object ''file'' (Some c)) \<and> c \<noteq> [])))"
proof (cases "cached_content st path")
  case None
  show ?thesis
  proof (cases "remote path")
    case remote_none: None
    with None show ?thesis by simp
  next
    case (Some d)
    show ?thesis
    proof (cases d)
      case (Listing items)
      with None Some show ?thesis by simp
    next
      case (Object t content)
      with None Some show ?thesis
        by (cases content) auto
    qed
  qed
next
  case (Some c)
  then show ?thesis by simp
qed











section \<open>Suggestions\<close>

lemma second_or_empty_nth: "length parts = 2 \<Longrightarrow> second_or_empty parts = parts ! 1"
  by (cases parts rule: second_or_empty.cases) auto

lemma getAutocompleteSuggestions_eq:
  "getAutocompleteSuggestions remote input st =
     (if length (tokens input) = 1
      then (Inr (filter (\<lambda>c. js_startsWith c (command_of input)) (map fst commandList)), st)
      else if length (tokens input) = 2
      then (if command_of input = ''cat''
            then getFileCompletions remote (tokens input ! 1) st
            else if command_of input = ''themes''
            then (Inr (getThemeCompletions (tokens input ! 1)), st)
            else if command_of input = ''cd''
            then getDirectoryCompletions remote (tokens input ! 1) st
            else (Inr [], st))
      else (Inr [], st))"
  by (simp add: getAutocompleteSuggestions_def tokens_def command_of_def Let_def
      second_or_empty_nth)

lemma getDirectoryCompletions_listing:
  assumes "fst (getDirectoryContents remote (currentDirectory st) st) = Some (Listing items)"
  shows "fst (getDirectoryCompletions remote partial st) =
     Inr ((if currentDirectory st \<noteq> ''/'' \<and> js_startsWith ''..'' partial then [''..''] else [])
          @ map item_name
              (filter (\<lambda>item. item_type item = ''dir'' \<and> js_startsWith (item_name item) partial)
                 items))"
proof (cases "getDirectoryContents remote (currentDirectory st) st")
  case (Pair r st1)
  with assms have r: "r = Some (Listing items)" by simp
  have "currentDirectory st1 = currentDirectory st"
    using getDirectoryContents_currentDirectory [of remote "currentDirectory st" st] Pair
    by simp
  with Pair r show ?thesis
    by (simp add: getDirectoryCompletions_def Let_def)
qed

lemma getFileCompletions_listing:
  assumes "fst (getDirectoryContents remote (currentDirectory st) st) = Some (Listing items)"
  shows "fst (getFileCompletions remote partial st) =
     Inr (map item_name
            (filter (\<lambda>item. item_type item = ''file'' \<and> js_startsWith (item_name item) partial)
               items))"
  using assms
  by (cases "getDirectoryContents remote (currentDirectory st) st")
     (simp add: getFileCompletions_def)

lemma completions_unavailable:
  assumes "fst (getDirectoryContents remote (currentDirectory st) st) = None"
  shows "fst (getDirectoryCompletions remote partial st) = Inr []"
    and "fst (getFileCompletions remote partial st) = Inr []"
  using assms
  by (cases "getDirectoryContents remote (currentDirectory st) st";
      simp add: getFileCompletions_def getDirectoryCompletions_def)+

text \<open>
  Claim C8, amended. A line is trimmed and cut at every single space. With one part
  the suggestions are the registered command names that start with the part in lower
  case, in the order of the registry. With two parts whose first is, in lower case,
  \<open>cd\<close>: the names of the items of type \<open>dir\<close> in the listing of the working
  directory that start with the second part, after \<open>..\<close> when the working directory
  is not the root and \<open>..\<close> starts with the second part. For \<open>cat\<close> they are the
  names of the items of type \<open>file\<close> that start with the second part; for both
  commands there is no suggestion when the listing cannot be fetched. For
  \<open>themes\<close> they are the keys of the registry that start with the second part. Any
  other first part, and any line of more than two parts, has no suggestion.
\<close>

theorem suggestions_by_parts:
  "(length (tokens input) = 1 \<longrightarrow>
      getAutocompleteSuggestions remote input st =
        (Inr (filter (\<lambda>c. js_startsWith c (command_of input)) (map fst commandList)), st))
   \<and> (length (tokens input) = 2 \<and> command_of input = ''cd''
        \<and> fst (getDirectoryContents remote (currentDirectory st) st) = Some (Listing items) \<longrightarrow>
        fst (getAutocompleteSuggestions remote input st) =
          Inr ((if currentDirectory st \<noteq> ''/'' \<and> js_startsWith ''..'' (tokens input ! 1)
                then [''..''] else [])
               @ map item_name
                   (filter (\<lambda>item. item_type item = ''dir''
                              \<and> js_startsWith (item_name item) (tokens input ! 1)) items)))
   \<and> (length (tokens input) = 2 \<and> command_of input = ''cat''
        \<and> fst (getDirectoryContents remote (currentDirectory st) st) = Some (Listing items) \<longrightarrow>
        fst (getAutocompleteSuggestions remote input st) =
          Inr (map item_name
                 (filter (\<lambda>item. item_type item = ''file''
                            \<and> js_startsWith (item_name item) (tokens input ! 1)) items)))
   \<and> (length (tokens input) = 2 \<and> (command_of input = ''cd'' \<or> command_of input = ''cat'')
        \<and> fst (getDirectoryContents remote (currentDirectory st) st) = None \<longrightarrow>
        fst (getAutocompleteSuggestions remote input st) = Inr [])
   \<and> (length (tokens input) = 2 \<and> command_of input = ''themes'' \<longrightarrow>
        getAutocompleteSuggestions remote input st =
          (Inr (filter (\<lambda>k. js_startsWith k (tokens input ! 1)) (map fst themes)), st))
   \<and> (length (tokens input) = 2 \<and> command_of input \<noteq> ''cat''
        \<and> command_of input \<noteq> ''themes'' \<and> command_of input \<noteq> ''cd'' \<longrightarrow>
        getAutocompleteSuggestions remote input st = (Inr [], st))
   \<and> (length (tokens input) > 2 \<longrightarrow> getAutocompleteSuggestions remote input st = (Inr [], st))"
proof -
  have one: "length (tokens input) = 1 \<longrightarrow>
      getAutocompleteSuggestions remote input st =
        (Inr (filter (\<lambda>c. js_startsWith c (command_of input)) (map fst commandList)), st)"
    by (simp add: getAutocompleteSuggestions_eq)
  have cd: "length (tokens input) = 2 \<and> command_of input = ''cd''
        \<and> fst (getDirectoryContents remote (currentDirectory st) st) = Some (Listing items) \<longrightarrow>
        fst (getAutocompleteSuggestions remote input st) =
          Inr ((if currentDirectory st \<noteq> ''/'' \<and> js_startsWith ''..'' (tokens input ! 1)
                then [''..''] else [])
               @ map item_name
                   (filter (\<lambda>item. item_type item = ''dir''
                              \<and> js_startsWith (item_name item) (tokens input ! 1)) items))"
    by (simp add: getAutocompleteSuggestions_eq getDirectoryCompletions_listing)
  have cat: "length (tokens input) = 2 \<and> command_of input = ''cat''
        \<and> fst (getDirectoryContents remote (currentDirectory st) st) = Some (Listing items) \<longrightarrow>
        fst (getAutocompleteSuggestions remote input st) =
          Inr (map item_name
                 (filter (\<lambda>item. item_type item = ''file''
                            \<and> js_startsWith (item_name item) (tokens input ! 1)) items))"
    by (simp add: getAutocompleteSuggestions_eq getFileCompletions_listing)
  have unavailable: "length (tokens input) = 2
        \<and> (command_of input = ''cd'' \<or> command_of input = ''cat'')
        \<and> fst (getDirectoryContents remote (currentDirectory st) st) = None \<longrightarrow>
        fst (getAutocompleteSuggestions remote input st) = Inr []"
    by (auto simp: getAutocompleteSuggestions_eq completions_unavailable)
  have themes: "length (tokens input) = 2 \<and> command_of input = ''themes'' \<longrightarrow>
        getAutocompleteSuggestions remote input st =
          (Inr (filter (\<lambda>k. js_startsWith k (tokens input ! 1)) (map fst themes)), st)"
    by (simp add: getAutocompleteSuggestions_eq getThemeCompletions_def)
  have other: "length (tokens input) = 2 \<and> command_of input \<noteq> ''cat''
        \<and> command_of input \<noteq> ''themes'' \<and> command_of input \<noteq> ''cd'' \<longrightarrow>
        getAutocompleteSuggestions remote input st = (Inr [], st)"
    by (simp add: getAutocompleteSuggestions_eq)
  have more: "length (tokens input) > 2 \<longrightarrow>
        getAutocompleteSuggestions remote input st = (Inr [], st)"
    by (simp add: getAutocompleteSuggestions_eq)
  from one cd cat unavailable themes other more show ?thesis by blast
qed

text \<open>
  Claim C8 as stated: one part selects the commands that start with that part, and a
  first part other than \<open>cd\<close> gives no suggestion. The line \<open>themes g\<close> is
  completed to \<open>gruvbox\<close>; the part \<open>H\<close> selects \<open>help\<close> and \<open>history\<close>,
  which do not start with it; and in \<open>/js\<close>, when the listing cannot be fetched,
  \<open>cd .\<close> has no suggestion, not even \<open>..\<close>.
\<close>

theorem suggestions_beyond_cd:
  "fst (getAutocompleteSuggestions example_remote ''themes g'' startup) = Inr [''gruvbox'']
   \<and> fst (getAutocompleteSuggestions example_remote ''H'' startup) = Inr [''help'', ''history'']
   \<and> \<not> js_startsWith ''help'' ''H'' \<and> \<not> js_startsWith ''history'' ''H''
   \<and> currentDirectory (submit example_remote ''cd js'' startup) = ''/js''
   \<and> js_startsWith ''..'' ''.''
   \<and> fst (getAutocompleteSuggestions (\<lambda>path. None) ''cd .''
            (submit example_remote ''cd js'' startup)) = Inr []"
  by code_simp

lemma th_tokens: "length (tokens ''th'') = 1" "command_of ''th'' = ''th''"
  by code_simp+

lemma th_commands: "filter (\<lambda>c. js_startsWith c ''th'') (map fst commandList) = [''themes'']"
  by code_simp

lemma cd_dot_tokens:
  "length (tokens ''CD .'') = 2" "command_of ''CD .'' = ''cd''" "tokens ''CD .'' ! 1 = ''.''"
  by code_simp+

lemma js_listing:
  "fst (getDirectoryContents example_remote
          (currentDirectory (submit example_remote ''cd js'' startup))
          (submit example_remote ''cd js'' startup))
     = Some (Listing [\<lparr>item_name = ''main.js'', item_type = ''file''\<rparr>,
                      \<lparr>item_name = ''terminal-events.js'', item_type = ''file''\<rparr>])"
  by code_simp

lemma cat_m_tokens:
  "length (tokens ''cat m'') = 2" "command_of ''cat m'' = ''cat''" "tokens ''cat m'' ! 1 = ''m''"
  by code_simp+

lemma themes_g_tokens:
  "length (tokens ''themes g'') = 2" "command_of ''themes g'' = ''themes''"
  "tokens ''themes g'' ! 1 = ''g''"
  by code_simp+

lemma themes_g_keys: "filter (\<lambda>k. js_startsWith k ''g'') (map fst themes) = [''gruvbox'']"
  by code_simp

lemma ls_x_tokens:
  "length (tokens ''ls x'') = 2" "command_of ''ls x'' = ''ls''"
  "length (tokens ''cd js x'') = 3"
  by code_simp+

lemma unavailable_listing:
  "fst (getDirectoryContents (\<lambda>path. None)
          (currentDirectory (submit example_remote ''cd js'' startup))
          (submit example_remote ''cd js'' startup)) = None"
  by code_simp

theorem suggestions_by_parts_witness:
  "length (tokens ''th'') = 1
   \<and> fst (getAutocompleteSuggestions example_remote ''th'' startup) = Inr [''themes'']
   \<and> length (tokens ''CD .'') = 2 \<and> command_of ''CD .'' = ''cd''
   \<and> fst (getAutocompleteSuggestions example_remote ''CD .''
            (submit example_remote ''cd js'' startup)) = Inr [''..'']
   \<and> length (tokens ''cat m'') = 2 \<and> command_of ''cat m'' = ''cat''
   \<and> fst (getAutocompleteSuggestions example_remote ''cat m''
            (submit example_remote ''cd js'' startup)) = Inr [''main.js'']
   \<and> fst (getDirectoryContents (\<lambda>path. None)
          (currentDirectory (submit example_remote ''cd js'' startup))
          (submit example_remote ''cd js'' startup)) = None
   \<and> fst (getAutocompleteSuggestions (\<lambda>path. None) ''CD .''
            (submit example_remote ''cd js'' startup)) = Inr []
   \<and> length (tokens ''themes g'') = 2 \<and> command_of ''themes g'' = ''themes''
   \<and> fst (getAutocompleteSuggestions example_remote ''themes g'' startup) = Inr [''gruvbox'']
   \<and> length (tokens ''ls x'') = 2 \<and> command_of ''ls x'' = ''ls''
   \<and> fst (getAutocompleteSuggestions example_remote ''ls x'' startup) = Inr []
   \<and> length (tokens ''cd js x'') = 3
   \<and> fst (getAutocompleteSuggestions example_remote ''cd js x'' startup) = Inr []"
  using suggestions_by_parts [where input = "''th''" and remote = example_remote and st = startup]
    suggestions_by_parts [where input = "''CD .''" and remote = example_remote
      and st = "submit example_remote ''cd js'' startup"
      and items = "[\<lparr>item_name = ''main.js'', item_type = ''file''\<rparr>,
                      \<lparr>item_name = ''terminal-events.js'', item_type = ''file''\<rparr>]"]
    suggestions_by_parts [where input = "''cat m''" and remote = example_remote
      and st = "submit example_remote ''cd js'' startup"
      and items = "[\<lparr>item_name = ''main.js'', item_type = ''file''\<rparr>,
                      \<lparr>item_name = ''terminal-events.js'', item_type = ''file''\<rparr>]"]
    suggestions_by_parts [where input = "''CD .''" and remote = "\<lambda>path. None"
      and st = "submit example_remote ''cd js'' startup"]
    suggestions_by_parts [where input = "''themes g''" and remote = example_remote and st = startup]
    suggestions_by_parts [where input = "''ls x''" and remote = example_remote and st = startup]
    suggestions_by_parts [where input = "''cd js x''" and remote = example_remote and st = startup]
    th_tokens th_commands cd_dot_tokens js_listing cat_m_tokens themes_g_tokens themes_g_keys
    ls_x_tokens unavailable_listing cd_js_state
  by (simp add: js_startsWith_def)

section \<open>Moving through the history\<close>












lemma is_prompt_setTextContent [simp]:
  "list_ex is_prompt (setTextContent v t) = list_ex is_prompt t"
  by (induction v t rule: setTextContent.induct) simp_all

lemma is_prompt_filter [simp]:
  "list_ex is_prompt (filter (\<lambda>l. \<not> is_completion_display l) t) = list_ex is_prompt t"
proof (induction t)
  case Nil
  then show ?case by simp
next
  case (Cons l t)
  then show ?case by (cases l) simp_all
qed

lemma hasUserInputSpan_reset [simp]:
  "hasUserInputSpan (resetAutocompleteState st) = hasUserInputSpan st"
  by (simp add: hasUserInputSpan_def resetAutocompleteState_def removeCompletionDisplays_def)

lemma hasUserInputSpan_input_event [simp]:
  "hasUserInputSpan (input_event v st) = hasUserInputSpan st"
  by (simp add: hasUserInputSpan_def input_event_def resetAutocompleteState_def
      removeCompletionDisplays_def)

lemma hasUserInputSpan_newPrompt [simp]: "hasUserInputSpan (newPrompt st)"
  by (simp add: hasUserInputSpan_def newPrompt_def appendChild_def createPromptHTML_def)

lemma hiddenInput_newPrompt [simp]: "hiddenInput (newPrompt st) = []"
  by (simp add: newPrompt_def)

lemma handleCommand_flag:
  assumes "handleCommand remote input st = (Inr r, s)"
  shows "out_clear r = (command_of input = ''clear'')"
    and "out_clear r \<Longrightarrow> s = cmd_clear st"
  using assms by (auto simp: handleCommand_eq split: if_splits prod.splits sum.splits)

lemma hasUserInputSpan_cmd_clear [simp]: "hasUserInputSpan (cmd_clear st)"
  by (simp add: hasUserInputSpan_def cmd_clear_def)










text \<open>
  The line \<open>clear now\<close> is not the word \<open>clear\<close>, so it is echoed and executed on
  the ordinary path; its outcome asks for a reset, the handler returns at once, and
  the input element keeps the line while the prompt shows none.
\<close>

lemma clear_with_arguments_keeps_buffer:
  "hiddenInput (submit example_remote ''clear now'' startup) = ''clear now''
   \<and> terminal (submit example_remote ''clear now'' startup) = [Prompt ''~'' []]"
  by code_simp

section \<open>The prompt of the terminal\<close>

text \<open>
  Every command but \<open>clear\<close> appends lines that are not prompts and creates none.
\<close>

lemma prompts_kept_refl [simp]: "prompts_kept st st"
  by (simp add: prompts_kept_def)

lemma prompts_kept_trans: "prompts_kept a b \<Longrightarrow> prompts_kept b c \<Longrightarrow> prompts_kept a c"
  by (simp add: prompts_kept_def)

lemma prompts_kept_getDirectoryContents [simp]:
  "prompts_kept st (snd (getDirectoryContents remote path st))"
  by (simp add: prompts_kept_def getDirectoryContents_def split: option.splits)

lemma prompts_kept_getFileContent [simp]:
  "prompts_kept st (snd (getFileContent remote path st))"
  by (simp add: prompts_kept_def getFileContent_def Let_def split: option.splits)

lemma no_prompt_ls_line [simp]: "filter is_prompt (map ls_line items) = []"
  by (induction items) (simp_all add: ls_line_def)

lemma prompts_kept_cmd_ls: "prompts_kept st (snd (cmd_ls remote st))"
  using prompts_kept_getDirectoryContents [of st remote "currentDirectory st"]
  by (cases "getDirectoryContents remote (currentDirectory st) st")
     (auto simp: cmd_ls_def prompts_kept_def appendChild_def split: option.splits sum.splits)

lemma prompts_kept_cat_tip: "prompts_kept st (snd (cat_tip remote st))"
  using prompts_kept_getDirectoryContents [of st remote "currentDirectory st"]
  by (cases "getDirectoryContents remote (currentDirectory st) st")
     (auto simp: cat_tip_def prompts_kept_def appendChild_def Let_def
           split: option.splits sum.splits)

lemma prompts_kept_cmd_cat: "prompts_kept st (snd (cmd_cat remote args st))"
proof (cases "truthy (first_arg args)")
  case False
  then show ?thesis by (simp add: cmd_cat_def prompts_kept_def appendChild_def)
next
  case True
  define filePath where "filePath =
      (if currentDirectory st = ''/'' then ''/'' @ the (first_arg args)
       else currentDirectory st @ ''/'' @ the (first_arg args))"
  obtain r st1 where g: "getFileContent remote filePath st = (r, st1)"
    by (cases "getFileContent remote filePath st")
  then have k: "prompts_kept st st1"
    using prompts_kept_getFileContent [of st remote filePath] by simp
  show ?thesis
  proof (cases r)
    case None
    have "prompts_kept st1 (appendChild [Html ''file not found'' [the (first_arg args)]] st1)"
      by (simp add: prompts_kept_def appendChild_def)
    then have "prompts_kept st1
        (snd (cat_tip remote (appendChild [Html ''file not found'' [the (first_arg args)]] st1)))"
      using prompts_kept_cat_tip prompts_kept_trans by blast
    with k have "prompts_kept st
        (snd (cat_tip remote (appendChild [Html ''file not found'' [the (first_arg args)]] st1)))"
      using prompts_kept_trans by blast
    with True g None show ?thesis
      by (simp add: cmd_cat_def Let_def filePath_def)
  next
    case (Some a)
    from k have "prompts_kept st (appendChild [Pre a] st1)"
      by (simp add: prompts_kept_def appendChild_def)
    with True g Some show ?thesis
      by (simp add: cmd_cat_def Let_def filePath_def)
  qed
qed

lemma prompts_kept_cmd_cd: "prompts_kept st (snd (cmd_cd remote args st))"
  using prompts_kept_getDirectoryContents
    [of st remote "cd_parentPath (cd_newPath (currentDirectory st) (cd_targetDir args))"]
  by (cases "getDirectoryContents remote
              (cd_parentPath (cd_newPath (currentDirectory st) (cd_targetDir args))) st")
     (auto simp: cmd_cd_def cd_finish_def prompts_kept_def appendChild_def Let_def
           split: option.splits sum.splits)

lemma no_prompt_map: "(\<And>x. \<not> is_prompt (f x)) \<Longrightarrow> filter is_prompt (map f xs) = []"
  by (induction xs) simp_all

lemma prompts_kept_cmd_themes: "prompts_kept st (snd (cmd_themes args st))"
  by (auto simp: cmd_themes_def setTheme_def prompts_kept_def appendChild_def Let_def
        no_prompt_map split: option.splits prod.splits)

lemma prompts_kept_cmd_help: "prompts_kept st (cmd_help st)"
  by (auto simp: cmd_help_def prompts_kept_def appendChild_def no_prompt_map split: prod.splits)

lemma prompts_kept_cmd_history: "prompts_kept st (cmd_history st)"
  by (auto simp: cmd_history_def prompts_kept_def appendChild_def no_prompt_map
        split: prod.splits)

lemma prompts_kept_run_case:
  "prompts_kept st (snd (run_case remote normalizedCommand args trimmedInput st))"
  using prompts_kept_cmd_ls [of st remote] prompts_kept_cmd_cat [of st remote args]
    prompts_kept_cmd_cd [of st remote args] prompts_kept_cmd_themes [of st args]
    prompts_kept_cmd_help [of st] prompts_kept_cmd_history [of st]
  by (simp add: run_case_def)
     (simp add: prompts_kept_def appendChild_def cmd_default_def)

lemma prompts_kept_handleCommand:
  "command_of input \<noteq> ''clear'' \<Longrightarrow> prompts_kept st (snd (handleCommand remote input st))"
  using prompts_kept_run_case [of st remote "command_of input" "args_of input" "js_trim input"]
  by (auto simp: handleCommand_eq split: prod.splits sum.splits)

text \<open>
  From the start on the terminal has at most one prompt: a prompt is created after
  the terminal was emptied or after the command echo has replaced the prompt before.
  So the prompt in the terminal is the one created last.
\<close>

lemma one_prompt_handleCommand:
  "one_prompt st \<Longrightarrow> one_prompt (snd (handleCommand remote input st))"
  using prompts_kept_handleCommand [of input st remote]
  by (cases "command_of input = ''clear''")
     (auto simp: one_prompt_def prompts_kept_def handleCommand_eq cmd_clear_def)

lemma no_prompt_replaced:
  "length (filter is_prompt ls) \<le> 1 \<Longrightarrow> filter is_prompt (replacePrompt (Echo d c) ls) = []"
  by (induction "Echo d c" ls rule: replacePrompt.induct) (auto simp: filter_empty_conv)

lemma filter_prompt_setTextContent:
  "length (filter is_prompt (setTextContent v ls)) = length (filter is_prompt ls)"
  by (induction v ls rule: setTextContent.induct) simp_all

lemma filter_prompt_insertAfterPrompt:
  "filter is_prompt new = [] \<Longrightarrow>
   length (filter is_prompt (insertAfterPrompt new ls)) = length (filter is_prompt ls)"
  by (induction new ls rule: insertAfterPrompt.induct) simp_all

lemma prompt_no_display: "is_prompt l \<Longrightarrow> \<not> is_completion_display l"
  by (cases l) simp_all

lemma filter_prompt_displays [simp]:
  "filter (\<lambda>l. \<not> is_completion_display l \<and> is_prompt l) ls = filter is_prompt ls"
  by (induction ls) (auto simp: prompt_no_display)

lemma one_prompt_reset [simp]: "one_prompt (resetAutocompleteState st) = one_prompt st"
  by (simp add: one_prompt_def resetAutocompleteState_def removeCompletionDisplays_def)

lemma one_prompt_input_event: "one_prompt st \<Longrightarrow> one_prompt (input_event v st)"
  by (simp add: one_prompt_def input_event_def resetAutocompleteState_def
      removeCompletionDisplays_def filter_prompt_setTextContent)

lemma one_prompt_newPrompt:
  "filter is_prompt (terminal st) = [] \<Longrightarrow> one_prompt (newPrompt st)"
  by (simp add: one_prompt_def newPrompt_def appendChild_def createPromptHTML_def)

lemma one_prompt_key_Enter:
  assumes "one_prompt st"
  shows "one_prompt (key_Enter remote st)"
proof -
  define st1 where "st1 = resetAutocompleteState st"
  define command where "command = js_trim (hiddenInput st1)"
  define st2 where "st2 = st1\<lparr>commandHistory := commandHistory st1 @ [command],
                          historyIndex := - 1\<rparr>"
  define st3 where "st3 = st2\<lparr>terminal :=
      replacePrompt (commandEcho (getCurrentDirectory st2) command) (terminal st2)\<rparr>"
  have o1: "one_prompt st1" using assms by (simp add: st1_def)
  then have o2: "one_prompt st2" by (simp add: st2_def one_prompt_def)
  have n3: "filter is_prompt (terminal st3) = []"
    using o2 by (simp add: st3_def one_prompt_def commandEcho_def no_prompt_replaced)
  show ?thesis
  proof (cases "command = []")
    case True
    with o1 show ?thesis by (simp add: key_Enter_def Let_def st1_def command_def)
  next
    case ne: False
    show ?thesis
    proof (cases "js_toLowerCase command = ''clear''")
      case True
      have "one_prompt (snd (handleCommand remote command st2))"
        using o2 by (rule one_prompt_handleCommand)
      with ne True show ?thesis
        by (auto simp: key_Enter_def Let_def st1_def [symmetric] command_def [symmetric]
            st2_def [symmetric] one_prompt_def split: prod.splits sum.splits)
    next
      case nc: False
      show ?thesis
      proof (cases "hasUserInputSpan st2")
        case False
        with ne nc o2 show ?thesis
          by (simp add: key_Enter_def Let_def st1_def [symmetric] command_def [symmetric]
              st2_def [symmetric])
      next
        case True
        obtain r st4 where h: "handleCommand remote command st3 = (r, st4)"
          by (cases "handleCommand remote command st3")
        show ?thesis
        proof (cases "command_of command = ''clear''")
          case True
          then have "st4 = cmd_clear st3"
            and "r = Inr \<lparr>out_clear = True, out_currentDirectory = None\<rparr>"
            using h by (simp_all add: handleCommand_eq)
          then have "one_prompt st4" and "\<exists>result. r = Inr result \<and> out_clear result"
            by (simp_all add: one_prompt_def cmd_clear_def)
          with ne nc \<open>hasUserInputSpan st2\<close> h show ?thesis
            by (auto simp: key_Enter_def Let_def st1_def [symmetric] command_def [symmetric]
              st2_def [symmetric] st3_def [symmetric])
        next
          case False
          then have k: "prompts_kept st3 st4"
            using prompts_kept_handleCommand [of command st3 remote] h by simp
          then have n4: "filter is_prompt (terminal st4) = []"
            using n3 by (simp add: prompts_kept_def)
          then have a: "one_prompt (newPrompt st4)" by (rule one_prompt_newPrompt)
          have b: "one_prompt (newPrompt (appendChild [Text ''Error executing command.''] st4))"
            using n4 by (intro one_prompt_newPrompt) (simp add: appendChild_def)
          have c: "one_prompt st4" using n4 by (simp add: one_prompt_def)
          from ne nc \<open>hasUserInputSpan st2\<close> h a b c show ?thesis
            by (auto simp: key_Enter_def Let_def st1_def [symmetric] command_def [symmetric]
              st2_def [symmetric] st3_def [symmetric] split: sum.splits)
        qed
      qed
    qed
  qed
qed

lemma one_prompt_setSpanText: "one_prompt st \<Longrightarrow> one_prompt (setSpanText span v st)"
  by (simp add: one_prompt_def setSpanText_def filter_prompt_setTextContent)

lemma one_prompt_insertAfterPromptOf:
  "filter is_prompt new = [] \<Longrightarrow> one_prompt st \<Longrightarrow>
   one_prompt (insertAfterPromptOf span new st)"
  by (simp add: one_prompt_def insertAfterPromptOf_def filter_prompt_insertAfterPrompt)

lemma one_prompt_applyCompletion:
  assumes "one_prompt st"
  shows "one_prompt (applyCompletion span completion st)"
proof -
  have "one_prompt (st\<lparr>hiddenInput := v\<rparr>)" for v
    using assms by (simp add: one_prompt_def)
  then show ?thesis
    by (simp add: applyCompletion_def Let_def one_prompt_setSpanText)
qed

lemma one_prompt_showCompletionOptions:
  assumes "one_prompt st"
  shows "one_prompt (showCompletionOptions span suggestions i st)"
proof -
  have "one_prompt (removeCompletionDisplays st)"
    using assms by (simp add: one_prompt_def removeCompletionDisplays_def)
  then show ?thesis
    by (simp add: showCompletionOptions_def one_prompt_insertAfterPromptOf)
qed

lemma one_prompt_resume:
  assumes "one_prompt st"
  shows "one_prompt (resumeAutocompleteSession span suggestions currentInput st)"
proof -
  have "one_prompt (st\<lparr>autocompleteSuggestions := suggestions, autocompleteIndex := 0,
                       autocompleteBaseInput := getBaseInput currentInput\<rparr>)"
    using assms by (simp add: one_prompt_def)
  then have "one_prompt (applyCompletion span (hd suggestions)
      (st\<lparr>autocompleteSuggestions := suggestions, autocompleteIndex := 0,
                       autocompleteBaseInput := getBaseInput currentInput\<rparr>))"
    by (rule one_prompt_applyCompletion)
  with assms show ?thesis
    by (simp add: resumeAutocompleteSession_def Let_def showNoMatchesMessage_def
        one_prompt_insertAfterPromptOf one_prompt_showCompletionOptions)
qed

lemma one_prompt_cycle:
  assumes "one_prompt st"
  shows "one_prompt (cycleToNextSuggestion span st)"
proof -
  have "one_prompt (st\<lparr>autocompleteIndex := i\<rparr>)" for i
    using assms by (simp add: one_prompt_def)
  then show ?thesis
    using assms
    by (simp add: cycleToNextSuggestion_def Let_def one_prompt_showCompletionOptions
        one_prompt_applyCompletion)
qed

lemma prompts_kept_getAutocompleteSuggestions:
  "prompts_kept st (snd (getAutocompleteSuggestions remote input st))"
proof -
  have f: "prompts_kept st (snd (getFileCompletions remote arg st))" for arg
    using prompts_kept_getDirectoryContents [of st remote "currentDirectory st"]
    by (cases "getDirectoryContents remote (currentDirectory st) st")
       (auto simp: getFileCompletions_def split: option.splits sum.splits)
  have d: "prompts_kept st (snd (getDirectoryCompletions remote arg st))" for arg
    using prompts_kept_getDirectoryContents [of st remote "currentDirectory st"]
    by (cases "getDirectoryContents remote (currentDirectory st) st")
       (auto simp: getDirectoryCompletions_def Let_def split: option.splits sum.splits)
  show ?thesis
    by (simp add: getAutocompleteSuggestions_def Let_def f d)
qed

lemma one_prompt_kept: "prompts_kept st st' \<Longrightarrow> one_prompt st \<Longrightarrow> one_prompt st'"
  by (simp add: prompts_kept_def one_prompt_def)

lemma one_prompt_startNew:
  assumes "one_prompt st"
  shows "one_prompt (startNewAutocompleteSession remote span currentInput st)"
proof -
  obtain r st1 where g: "getAutocompleteSuggestions remote currentInput st = (r, st1)"
    by (cases "getAutocompleteSuggestions remote currentInput st")
  then have "one_prompt st1"
    using prompts_kept_getAutocompleteSuggestions [of st remote currentInput] assms
      one_prompt_kept by fastforce
  then show ?thesis
    using g by (simp add: startNewAutocompleteSession_def one_prompt_resume split: sum.splits)
qed

lemma one_prompt_arrows:
  assumes "one_prompt st"
  shows "one_prompt (key_ArrowUp st)" and "one_prompt (key_ArrowDown st)"
  using assms
  by (simp_all add: key_ArrowUp_def key_ArrowDown_def Let_def one_prompt_def
      filter_prompt_setTextContent)

lemma one_prompt_ctrl_l: "one_prompt (key_ctrl_l st)"
  by (simp add: key_ctrl_l_def one_prompt_def createPromptHTML_def)

lemma one_prompt_keydown:
  assumes "one_prompt st"
  shows "one_prompt (keydown remote ctrl k st)"
proof -
  have r: "one_prompt (resetAutocompleteState st)" using assms by simp
  then show ?thesis
    using assms
    by (simp add: keydown_def Let_def one_prompt_cycle one_prompt_startNew one_prompt_ctrl_l
        one_prompt_arrows one_prompt_key_Enter)
qed

lemma one_prompt_submit: "one_prompt st \<Longrightarrow> one_prompt (submit remote l st)"
  by (simp add: submit_def one_prompt_keydown one_prompt_input_event)

lemma one_prompt_startup: "one_prompt startup"
  by code_simp

text \<open>
  A line submitted at a prompt leaves a new prompt: a span looked up before is not
  attached afterwards, and neither after the terminal was cleared with Ctrl+L. Typing
  does not replace the prompt.
\<close>

lemma promptElements_reset [simp]:
  "promptElements (resetAutocompleteState st) = promptElements st"
  by (simp add: resetAutocompleteState_def removeCompletionDisplays_def)

lemma promptElements_key_Enter:
  assumes "hasUserInputSpan st" and "js_trim (hiddenInput st) \<noteq> []"
  shows "promptElements (key_Enter remote st) = promptElements st + 1"
proof -
  define st1 where "st1 = resetAutocompleteState st"
  define command where "command = js_trim (hiddenInput st1)"
  define st2 where "st2 = st1\<lparr>commandHistory := commandHistory st1 @ [command],
                          historyIndex := - 1\<rparr>"
  define st3 where "st3 = st2\<lparr>terminal :=
      replacePrompt (commandEcho (getCurrentDirectory st2) command) (terminal st2)\<rparr>"
  have ne: "command \<noteq> []" using assms(2) by (simp add: command_def st1_def)
  have span: "hasUserInputSpan st2"
    using assms(1)
    by (simp add: st2_def st1_def hasUserInputSpan_def resetAutocompleteState_def
        removeCompletionDisplays_def)
  have p2: "promptElements st2 = promptElements st" by (simp add: st2_def st1_def)
  then have p3: "promptElements st3 = promptElements st" by (simp add: st3_def)
  show ?thesis
  proof (cases "js_toLowerCase command = ''clear''")
    case True
    then have "handleCommand remote command st2
        = (Inr \<lparr>out_clear = True, out_currentDirectory = None\<rparr>, cmd_clear st2)"
      using clear_command_of(1) [OF True] by (simp add: handleCommand_eq)
    with ne True p2 show ?thesis
      by (simp add: key_Enter_def Let_def st1_def [symmetric] command_def [symmetric]
            st2_def [symmetric] cmd_clear_def)
  next
    case nc: False
    obtain r st4 where h: "handleCommand remote command st3 = (r, st4)"
      by (cases "handleCommand remote command st3")
    show ?thesis
    proof (cases "command_of command = ''clear''")
      case True
      then have "st4 = cmd_clear st3"
        and "r = Inr \<lparr>out_clear = True, out_currentDirectory = None\<rparr>"
        using h by (simp_all add: handleCommand_eq)
      with ne nc span h p3 show ?thesis
        by (simp add: key_Enter_def Let_def st1_def [symmetric] command_def [symmetric]
              st2_def [symmetric] st3_def [symmetric] cmd_clear_def)
    next
      case False
      then have k: "prompts_kept st3 st4"
        using prompts_kept_handleCommand [of command st3 remote] h by simp
      then have p4: "promptElements st4 = promptElements st"
        using p3 by (simp add: prompts_kept_def)
      have flag: "\<not> out_clear result" if "r = Inr result" for result
        using handleCommand_flag(1) [of remote command st3 result st4] h that False by simp
      from ne nc span h p4 flag show ?thesis
        by (auto simp: key_Enter_def Let_def st1_def [symmetric] command_def [symmetric]
              st2_def [symmetric] st3_def [symmetric] newPrompt_def appendChild_def
              split: sum.splits)
    qed
  qed
qed

lemma promptElements_submit:
  assumes "hasUserInputSpan st" and "js_trim l \<noteq> []"
  shows "promptElements (submit remote l st) = promptElements st + 1"
proof -
  let ?s = "resetAutocompleteState (input_event l st)"
  have e: "submit remote l st = key_Enter remote ?s"
    by (simp add: submit_def keydown_def)
  have "hasUserInputSpan ?s" using assms(1) by simp
  moreover have "js_trim (hiddenInput ?s) \<noteq> []" using assms(2) by (simp add: input_event_def)
  moreover have "promptElements ?s = promptElements st"
    by (simp add: input_event_def resetAutocompleteState_def removeCompletionDisplays_def)
  ultimately show ?thesis
    using promptElements_key_Enter [of ?s remote] e by simp
qed

lemma submit_detaches:
  assumes "hasUserInputSpan st" and "js_trim l \<noteq> []"
  shows "\<not> attached (userInputSpan st) (submit remote l st)"
  using promptElements_submit [OF assms, of remote] assms(1)
  by (simp add: attached_def userInputSpan_def)

lemma lower_l: "js_toLowerCase ''l'' = ''l''"
  by code_simp

lemma ctrl_l_detaches: "\<not> attached (userInputSpan st) (keydown remote True ''l'' st)"
  by (simp add: attached_def userInputSpan_def keydown_def key_ctrl_l_def Let_def
      resetAutocompleteState_def removeCompletionDisplays_def lower_l)

lemma typing_keeps_attached:
  "attached span (input_event v st) = attached span st"
  by (simp add: attached_def userInputSpan_def input_event_def resetAutocompleteState_def
      removeCompletionDisplays_def hasUserInputSpan_def)

section \<open>An answer that arrives late\<close>

lemma attached_cong:
  assumes "terminal st' = terminal st \<or> terminal st' = setTextContent v (terminal st)
           \<or> terminal st' = filter (\<lambda>l. \<not> is_completion_display l) (terminal st)"
    and "promptElements st' = promptElements st"
  shows "attached span st' = attached span st"
  using assms by (auto simp: attached_def userInputSpan_def hasUserInputSpan_def)

lemma resume_buffer:
  assumes "suggestions \<noteq> []"
  shows "hiddenInput (resumeAutocompleteSession span suggestions currentInput st)
           = completed (hiddenInput st) (hd suggestions)"
  using assms
  by (simp add: resumeAutocompleteSession_def applyCompletion_def showCompletionOptions_def
      setSpanText_def insertAfterPromptOf_def removeCompletionDisplays_def
      resetAutocompleteState_def Let_def)

lemma resume_session:
  assumes "1 < length suggestions"
  shows "autocompleteSuggestions (resumeAutocompleteSession span suggestions currentInput st)
           = suggestions
         \<and> autocompleteIndex (resumeAutocompleteSession span suggestions currentInput st) = 0
         \<and> autocompleteBaseInput (resumeAutocompleteSession span suggestions currentInput st)
             = getBaseInput currentInput"
  using assms
  by (auto simp: resumeAutocompleteSession_def applyCompletion_def showCompletionOptions_def
      setSpanText_def insertAfterPromptOf_def removeCompletionDisplays_def Let_def)

lemma resume_no_session:
  assumes "length suggestions = 1"
  shows "autocompleteSuggestions (resumeAutocompleteSession span suggestions currentInput st)
           = []
         \<and> autocompleteIndex (resumeAutocompleteSession span suggestions currentInput st) = - 1
         \<and> autocompleteBaseInput (resumeAutocompleteSession span suggestions currentInput st)
             = []"
  using assms
  by (simp add: resumeAutocompleteSession_def applyCompletion_def setSpanText_def
      removeCompletionDisplays_def resetAutocompleteState_def Let_def)

lemma resume_detached:
  assumes "suggestions \<noteq> []" and "\<not> attached span st"
  shows "terminal (resumeAutocompleteSession span suggestions currentInput st)
           = filter (\<lambda>l. \<not> is_completion_display l) (terminal st)"
proof -
  let ?st1 = "st\<lparr>autocompleteSuggestions := suggestions, autocompleteIndex := 0,
                  autocompleteBaseInput := getBaseInput currentInput,
                  hiddenInput := completed (hiddenInput st) (hd suggestions)\<rparr>"
  have a1: "\<not> attached span ?st1"
    using assms(2) attached_cong [of ?st1 st undefined span] by simp
  have applied: "applyCompletion span (hd suggestions)
        (st\<lparr>autocompleteSuggestions := suggestions, autocompleteIndex := 0,
            autocompleteBaseInput := getBaseInput currentInput\<rparr>) = ?st1"
    using a1 by (simp add: applyCompletion_def setSpanText_def Let_def)
  have a2: "\<not> attached span (removeCompletionDisplays ?st1)"
    using a1 attached_cong [of "removeCompletionDisplays ?st1" ?st1 undefined span]
    by (simp add: removeCompletionDisplays_def)
  show ?thesis
    using assms(1) applied a2
    by (simp add: resumeAutocompleteSession_def showCompletionOptions_def
        insertAfterPromptOf_def removeCompletionDisplays_def resetAutocompleteState_def
        Let_def)
qed

lemma resume_attached:
  assumes "suggestions \<noteq> []" and "attached span st"
  shows "terminal (resumeAutocompleteSession span suggestions currentInput st)
           = (if length suggestions = 1
              then filter (\<lambda>l. \<not> is_completion_display l)
                     (setTextContent (completed (hiddenInput st) (hd suggestions)) (terminal st))
              else insertAfterPrompt
                     [CompletionSuggestions suggestions, CompletionIndicator 0 suggestions]
                     (filter (\<lambda>l. \<not> is_completion_display l)
                        (setTextContent (completed (hiddenInput st) (hd suggestions))
                           (terminal st))))"
proof -
  let ?v = "completed (hiddenInput st) (hd suggestions)"
  let ?st0 = "st\<lparr>autocompleteSuggestions := suggestions, autocompleteIndex := 0,
                  autocompleteBaseInput := getBaseInput currentInput, hiddenInput := ?v\<rparr>"
  let ?st1 = "?st0\<lparr>terminal := setTextContent ?v (terminal st)\<rparr>"
  have a0: "attached span ?st0"
    using assms(2) attached_cong [of ?st0 st undefined span] by simp
  have applied: "applyCompletion span (hd suggestions)
        (st\<lparr>autocompleteSuggestions := suggestions, autocompleteIndex := 0,
            autocompleteBaseInput := getBaseInput currentInput\<rparr>) = ?st1"
    using a0 by (simp add: applyCompletion_def setSpanText_def Let_def)
  have a1: "attached span ?st1"
    using assms(2) attached_cong [of ?st1 st ?v span] by simp
  have a2: "attached span (removeCompletionDisplays ?st1)"
    using a1 attached_cong [of "removeCompletionDisplays ?st1" ?st1 undefined span]
    by (simp add: removeCompletionDisplays_def)
  show ?thesis
    using assms(1) applied a2
    by (simp add: resumeAutocompleteSession_def showCompletionOptions_def
        insertAfterPromptOf_def removeCompletionDisplays_def resetAutocompleteState_def
        Let_def)
qed

lemma resume_empty:
  "resumeAutocompleteSession span [] currentInput st
     = (if attached span st
        then st\<lparr>terminal := insertAfterPrompt [Text ''No completions found''] (terminal st)\<rparr>
        else st)"
  by (simp add: resumeAutocompleteSession_def showNoMatchesMessage_def insertAfterPromptOf_def)

text \<open>
  Run at once, the continuation has the span of the prompt in the terminal, and
  \<open>startNewAutocompleteSession\<close> writes to that prompt.
\<close>

lemma attached_userInputSpan: "attached (userInputSpan st) st = hasUserInputSpan st"
  by (simp add: attached_def userInputSpan_def)

lemma setSpanText_at_once:
  "setSpanText (userInputSpan st) v st = st\<lparr>terminal := setTextContent v (terminal st)\<rparr>"
proof (cases "hasUserInputSpan st")
  case True
  then show ?thesis by (simp add: setSpanText_def attached_userInputSpan)
next
  case False
  have "setTextContent v ls = ls" if "\<not> list_ex is_prompt ls" for ls
    using that by (induction v ls rule: setTextContent.induct) simp_all
  with False show ?thesis
    by (simp add: setSpanText_def attached_userInputSpan hasUserInputSpan_def)
qed

text \<open>
  An answer that arrives after a line was submitted at the prompt of the request: the
  buffer takes the suggestion, the terminal keeps the text of its prompt. After mere
  typing the span of the request is attached as before.
\<close>

lemma answer_after_submit:
  assumes "hasUserInputSpan st" and "js_trim l \<noteq> []" and "suggestions \<noteq> []"
  shows "hiddenInput (resumeAutocompleteSession (userInputSpan st) suggestions currentInput
                        (submit remote l st))
           = completed (hiddenInput (submit remote l st)) (hd suggestions)"
    and "terminal (resumeAutocompleteSession (userInputSpan st) suggestions currentInput
                     (submit remote l st))
           = filter (\<lambda>l. \<not> is_completion_display l) (terminal (submit remote l st))"
proof -
  show "hiddenInput (resumeAutocompleteSession (userInputSpan st) suggestions currentInput
                        (submit remote l st))
           = completed (hiddenInput (submit remote l st)) (hd suggestions)"
    by (rule resume_buffer [OF assms(3)])
  show "terminal (resumeAutocompleteSession (userInputSpan st) suggestions currentInput
                     (submit remote l st))
           = filter (\<lambda>l. \<not> is_completion_display l) (terminal (submit remote l st))"
    by (rule resume_detached [OF assms(3) submit_detaches [OF assms(1,2)]])
qed

lemma attached_after_typing:
  "attached (userInputSpan st) (input_event v st) = hasUserInputSpan st"
  by (simp add: typing_keeps_attached attached_userInputSpan)

text \<open>
  The span of a request outlives its prompt: once a line has been submitted, or the
  terminal emptied, the span of the request is not attached any more, although the
  terminal has a prompt again.
\<close>

lemma span_of_request:
  "userInputSpan (input_event ''cd j'' startup) = Some 1
   \<and> attached (Some 1) (input_event ''ls'' (input_event ''cd j'' startup))
   \<and> hasUserInputSpan (submit example_remote ''whoami'' (input_event ''cd j'' startup))
   \<and> \<not> attached (Some 1) (submit example_remote ''whoami'' (input_event ''cd j'' startup))
   \<and> hasUserInputSpan (keydown example_remote True ''l'' (input_event ''cd j'' startup))
   \<and> \<not> attached (Some 1) (keydown example_remote True ''l'' (input_event ''cd j'' startup))
   \<and> hasUserInputSpan (submit example_remote ''clear'' (input_event ''cd j'' startup))
   \<and> \<not> attached (Some 1) (submit example_remote ''clear'' (input_event ''cd j'' startup))"
  by code_simp

text \<open>
  Claim C3, amended. When the awaited suggestions arrive they are applied without a
  check that the input buffer or the session is still the one of the request. A
  non-empty answer puts its first suggestion, followed by a space, in place of the last
  part of whatever the buffer holds at that moment. The display follows the buffer
  when the prompt of the request is still the prompt of the terminal, as it is after
  mere typing: the text shown in that prompt becomes the new buffer, old completion
  displays are removed and, for an answer of several suggestions, the suggestions and
  the indicator of the first are put after the prompt. When the prompt of the request
  has left the terminal (a line was submitted, or the terminal was cleared) the buffer
  is changed all the same, but of the display only old completion displays are
  removed: the prompt now in the terminal keeps its text. An answer of several
  suggestions opens a cycling session whose base input is the one of the request; an
  answer of one suggestion leaves no session. An empty answer changes nothing but the
  display: the message that nothing was found is put after the prompt of the request
  when that prompt is still in the terminal, and nowhere otherwise.
\<close>

theorem resume_unconditional:
  "(suggestions \<noteq> [] \<longrightarrow>
      hiddenInput (resumeAutocompleteSession span suggestions currentInput st)
        = completed (hiddenInput st) (hd suggestions))
   \<and> (suggestions \<noteq> [] \<and> attached span st \<longrightarrow>
        terminal (resumeAutocompleteSession span suggestions currentInput st)
          = (if length suggestions = 1
             then filter (\<lambda>l. \<not> is_completion_display l)
                    (setTextContent (completed (hiddenInput st) (hd suggestions)) (terminal st))
             else insertAfterPrompt
                    [CompletionSuggestions suggestions, CompletionIndicator 0 suggestions]
                    (filter (\<lambda>l. \<not> is_completion_display l)
                       (setTextContent (completed (hiddenInput st) (hd suggestions))
                          (terminal st)))))
   \<and> (suggestions \<noteq> [] \<and> \<not> attached span st \<longrightarrow>
        terminal (resumeAutocompleteSession span suggestions currentInput st)
          = filter (\<lambda>l. \<not> is_completion_display l) (terminal st))
   \<and> (1 < length suggestions \<longrightarrow>
        autocompleteSuggestions (resumeAutocompleteSession span suggestions currentInput st)
          = suggestions
        \<and> autocompleteIndex (resumeAutocompleteSession span suggestions currentInput st) = 0
        \<and> autocompleteBaseInput (resumeAutocompleteSession span suggestions currentInput st)
            = getBaseInput currentInput)
   \<and> (length suggestions = 1 \<longrightarrow>
        autocompleteSuggestions (resumeAutocompleteSession span suggestions currentInput st)
          = []
        \<and> autocompleteIndex (resumeAutocompleteSession span suggestions currentInput st) = - 1
        \<and> autocompleteBaseInput (resumeAutocompleteSession span suggestions currentInput st)
            = [])
   \<and> (suggestions = [] \<longrightarrow>
        resumeAutocompleteSession span suggestions currentInput st
          = (if attached span st
             then st\<lparr>terminal :=
                       insertAfterPrompt [Text ''No completions found''] (terminal st)\<rparr>
             else st))"
  by (intro conjI impI)
    (simp_all add: resume_buffer resume_attached resume_detached resume_session
      resume_no_session resume_empty)

text \<open>
  Claim C3 as stated: a stale answer is discarded. The line \<open>cd j\<close> is typed and the
  completion requested with the span of the first prompt; the listing of the root is
  fetched and the answer is \<open>js\<close>. If the buffer is changed to \<open>ls\<close> before the
  answer arrives, the answer replaces the buffer and the text shown in the prompt by
  \<open>js\<close> and a space. If instead the line \<open>whoami\<close> is submitted before the answer
  arrives, the answer puts \<open>js\<close> and a space in the emptied buffer, while the new
  prompt goes on showing an empty input.
\<close>

theorem stale_suggestion_applied:
  "userInputSpan (input_event ''cd j'' startup) = Some 1
   \<and> fst (getAutocompleteSuggestions example_remote ''cd j'' (input_event ''cd j'' startup))
     = Inr [''js'']
   \<and> hiddenInput (input_event ''ls''
        (snd (getAutocompleteSuggestions example_remote ''cd j'' (input_event ''cd j'' startup))))
     = ''ls''
   \<and> hiddenInput (resumeAutocompleteSession (Some 1) [''js''] ''cd j''
        (input_event ''ls''
          (snd (getAutocompleteSuggestions example_remote ''cd j''
                  (input_event ''cd j'' startup)))))
     = ''js ''
   \<and> terminal (resumeAutocompleteSession (Some 1) [''js''] ''cd j''
        (input_event ''ls''
          (snd (getAutocompleteSuggestions example_remote ''cd j''
                  (input_event ''cd j'' startup)))))
     = [WelcomeMessage, Prompt ''~'' ''js '']
   \<and> hiddenInput (submit example_remote ''whoami''
        (snd (getAutocompleteSuggestions example_remote ''cd j'' (input_event ''cd j'' startup))))
     = []
   \<and> hiddenInput (resumeAutocompleteSession (Some 1) [''js''] ''cd j''
        (submit example_remote ''whoami''
          (snd (getAutocompleteSuggestions example_remote ''cd j''
                  (input_event ''cd j'' startup)))))
     = ''js ''
   \<and> terminal (resumeAutocompleteSession (Some 1) [''js''] ''cd j''
        (submit example_remote ''whoami''
          (snd (getAutocompleteSuggestions example_remote ''cd j''
                  (input_event ''cd j'' startup)))))
     = terminal (submit example_remote ''whoami''
          (snd (getAutocompleteSuggestions example_remote ''cd j''
                  (input_event ''cd j'' startup))))
   \<and> last (terminal (resumeAutocompleteSession (Some 1) [''js''] ''cd j''
        (submit example_remote ''whoami''
          (snd (getAutocompleteSuggestions example_remote ''cd j''
                  (input_event ''cd j'' startup))))))
     = Prompt ''~'' []"
  by code_simp

lemma typed_attached: "attached (Some 1) (input_event ''ls'' startup)"
  by code_simp

lemma sent_detached:
  "\<not> attached (Some 1) (submit example_remote ''whoami'' (input_event ''cd j'' startup))"
  by code_simp

lemma typed_one:
  "completed (hiddenInput (input_event ''ls'' startup)) (hd [''js'']) = ''js ''
   \<and> filter (\<lambda>l. \<not> is_completion_display l)
        (setTextContent (completed (hiddenInput (input_event ''ls'' startup)) (hd [''js'']))
           (terminal (input_event ''ls'' startup)))
       = [WelcomeMessage, Prompt ''~'' ''js '']"
  by code_simp

lemma typed_two:
  "insertAfterPrompt
     [CompletionSuggestions [''about'', ''cat''], CompletionIndicator 0 [''about'', ''cat'']]
     (filter (\<lambda>l. \<not> is_completion_display l)
        (setTextContent
           (completed (hiddenInput (input_event ''ls'' startup)) (hd [''about'', ''cat'']))
           (terminal (input_event ''ls'' startup))))
     = [WelcomeMessage, Prompt ''~'' ''about '', CompletionSuggestions [''about'', ''cat''],
        CompletionIndicator 0 [''about'', ''cat'']]
   \<and> getBaseInput ''a'' = []"
  by code_simp

lemma sent_one:
  "completed (hiddenInput (submit example_remote ''whoami'' (input_event ''cd j'' startup)))
       (hd [''js'']) = ''js ''
   \<and> filter (\<lambda>l. \<not> is_completion_display l)
        (terminal (submit example_remote ''whoami'' (input_event ''cd j'' startup)))
       = [WelcomeMessage, Echo ''~'' ''whoami'', Text ''guest'', Prompt ''~'' []]"
  by code_simp

lemma typed_none:
  "insertAfterPrompt [Text ''No completions found''] (terminal (input_event ''ls'' startup))
     = [WelcomeMessage, Prompt ''~'' ''ls'', Text ''No completions found'']"
  by code_simp

theorem resume_unconditional_witness:
  "attached (Some 1) (input_event ''ls'' startup)
   \<and> hiddenInput (resumeAutocompleteSession (Some 1) [''js''] ''cd j''
        (input_event ''ls'' startup)) = ''js ''
   \<and> terminal (resumeAutocompleteSession (Some 1) [''js''] ''cd j''
        (input_event ''ls'' startup)) = [WelcomeMessage, Prompt ''~'' ''js '']
   \<and> autocompleteSuggestions (resumeAutocompleteSession (Some 1) [''js''] ''cd j''
        (input_event ''ls'' startup)) = []
   \<and> terminal (resumeAutocompleteSession (Some 1) [''about'', ''cat''] ''a''
        (input_event ''ls'' startup))
       = [WelcomeMessage, Prompt ''~'' ''about '', CompletionSuggestions [''about'', ''cat''],
          CompletionIndicator 0 [''about'', ''cat'']]
   \<and> autocompleteSuggestions (resumeAutocompleteSession (Some 1) [''about'', ''cat''] ''a''
        (input_event ''ls'' startup)) = [''about'', ''cat'']
   \<and> autocompleteIndex (resumeAutocompleteSession (Some 1) [''about'', ''cat''] ''a''
        (input_event ''ls'' startup)) = 0
   \<and> autocompleteBaseInput (resumeAutocompleteSession (Some 1) [''about'', ''cat''] ''a''
        (input_event ''ls'' startup)) = []
   \<and> \<not> attached (Some 1) (submit example_remote ''whoami'' (input_event ''cd j'' startup))
   \<and> hiddenInput (resumeAutocompleteSession (Some 1) [''js''] ''cd j''
        (submit example_remote ''whoami'' (input_event ''cd j'' startup))) = ''js ''
   \<and> terminal (resumeAutocompleteSession (Some 1) [''js''] ''cd j''
        (submit example_remote ''whoami'' (input_event ''cd j'' startup)))
       = [WelcomeMessage, Echo ''~'' ''whoami'', Text ''guest'', Prompt ''~'' []]
   \<and> terminal (resumeAutocompleteSession (Some 1) [] ''zz'' (input_event ''ls'' startup))
       = [WelcomeMessage, Prompt ''~'' ''ls'', Text ''No completions found'']
   \<and> resumeAutocompleteSession (Some 1) [] ''zz''
        (submit example_remote ''whoami'' (input_event ''cd j'' startup))
       = submit example_remote ''whoami'' (input_event ''cd j'' startup)"
proof -
  note one = resume_unconditional [where span = "Some 1" and suggestions = "[''js'']"
      and currentInput = "''cd j''" and st = "input_event ''ls'' startup"]
  note two = resume_unconditional [where span = "Some 1"
      and suggestions = "[''about'', ''cat'']" and currentInput = "''a''"
      and st = "input_event ''ls'' startup"]
  note late = resume_unconditional [where span = "Some 1" and suggestions = "[''js'']"
      and currentInput = "''cd j''"
      and st = "submit example_remote ''whoami'' (input_event ''cd j'' startup)"]
  note none = resume_unconditional [where span = "Some 1" and suggestions = "[]"
      and currentInput = "''zz''" and st = "input_event ''ls'' startup"]
  note none_late = resume_unconditional [where span = "Some 1" and suggestions = "[]"
      and currentInput = "''zz''"
      and st = "submit example_remote ''whoami'' (input_event ''cd j'' startup)"]
  have w1: "hiddenInput (resumeAutocompleteSession (Some 1) [''js''] ''cd j''
        (input_event ''ls'' startup)) = ''js ''"
    using one [THEN conjunct1] typed_one [THEN conjunct1] by simp
  have w2: "terminal (resumeAutocompleteSession (Some 1) [''js''] ''cd j''
        (input_event ''ls'' startup)) = [WelcomeMessage, Prompt ''~'' ''js '']"
    using one [THEN conjunct2, THEN conjunct1] typed_attached typed_one [THEN conjunct2]
    by simp
  have w3: "autocompleteSuggestions (resumeAutocompleteSession (Some 1) [''js''] ''cd j''
        (input_event ''ls'' startup)) = []"
    using one [THEN conjunct2, THEN conjunct2, THEN conjunct2, THEN conjunct2, THEN conjunct1]
    by simp
  have w4: "terminal (resumeAutocompleteSession (Some 1) [''about'', ''cat''] ''a''
        (input_event ''ls'' startup))
       = [WelcomeMessage, Prompt ''~'' ''about '', CompletionSuggestions [''about'', ''cat''],
          CompletionIndicator 0 [''about'', ''cat'']]"
    using two [THEN conjunct2, THEN conjunct1] typed_attached typed_two [THEN conjunct1]
    by simp
  have w5: "autocompleteSuggestions (resumeAutocompleteSession (Some 1) [''about'', ''cat'']
        ''a'' (input_event ''ls'' startup)) = [''about'', ''cat'']
     \<and> autocompleteIndex (resumeAutocompleteSession (Some 1) [''about'', ''cat''] ''a''
        (input_event ''ls'' startup)) = 0
     \<and> autocompleteBaseInput (resumeAutocompleteSession (Some 1) [''about'', ''cat''] ''a''
        (input_event ''ls'' startup)) = []"
    using two [THEN conjunct2, THEN conjunct2, THEN conjunct2, THEN conjunct1]
      typed_two [THEN conjunct2]
    by simp
  note w5a = w5 [THEN conjunct1]
  note w5b = w5 [THEN conjunct2, THEN conjunct1]
  note w5c = w5 [THEN conjunct2, THEN conjunct2]
  have w6: "hiddenInput (resumeAutocompleteSession (Some 1) [''js''] ''cd j''
        (submit example_remote ''whoami'' (input_event ''cd j'' startup))) = ''js ''"
    using late [THEN conjunct1] sent_one [THEN conjunct1] by simp
  have w7: "terminal (resumeAutocompleteSession (Some 1) [''js''] ''cd j''
        (submit example_remote ''whoami'' (input_event ''cd j'' startup)))
       = [WelcomeMessage, Echo ''~'' ''whoami'', Text ''guest'', Prompt ''~'' []]"
    using late [THEN conjunct2, THEN conjunct2, THEN conjunct1] sent_detached
      sent_one [THEN conjunct2]
    by simp
  have w8: "terminal (resumeAutocompleteSession (Some 1) [] ''zz'' (input_event ''ls'' startup))
       = [WelcomeMessage, Prompt ''~'' ''ls'', Text ''No completions found'']"
    using none [THEN conjunct2, THEN conjunct2, THEN conjunct2, THEN conjunct2, THEN conjunct2]
      typed_attached typed_none
    by simp
  have w9: "resumeAutocompleteSession (Some 1) [] ''zz''
        (submit example_remote ''whoami'' (input_event ''cd j'' startup))
       = submit example_remote ''whoami'' (input_event ''cd j'' startup)"
    using none_late [THEN conjunct2, THEN conjunct2, THEN conjunct2, THEN conjunct2,
        THEN conjunct2] sent_detached
    by simp
  from typed_attached w1 w2 w3 w4 w5a w5b w5c sent_detached w6 w7 w8 w9 show ?thesis
    by (intro conjI)
qed

section \<open>The working directory\<close>

lemma js_substring_take: "js_substring s 0 j = take (js_clamp s j) s"
  by (simp add: js_substring_def js_clamp_def)

lemma absolute_iff: "absolute p = (\<exists>q. p = CHR ''/'' # q)"
  by (cases p) (auto simp: absolute_def js_startsWith_def)

lemma absolute_take: "absolute p \<Longrightarrow> take k p \<noteq> [] \<Longrightarrow> absolute (take k p)"
  by (cases k) (auto simp: absolute_iff)

lemma cd_newPath_absolute:
  assumes "absolute dir"
  shows "absolute (cd_newPath dir t)"
proof (cases "t = ''..''")
  case True
  then show ?thesis
    using assms absolute_take [of dir "js_clamp dir (js_lastIndexOf dir (CHR ''/''))"]
    by (simp add: cd_newPath_def js_substring_take Let_def) (simp add: absolute_iff)
next
  case False
  from assms obtain q where "dir = CHR ''/'' # q"
    using absolute_iff by blast
  with False show ?thesis
    by (simp add: cd_newPath_def absolute_def js_startsWith_def)
qed

lemma cd_dirName_nonempty:
  assumes "cd_dirName p \<noteq> []"
  shows "p \<noteq> [] \<and> last p \<noteq> CHR ''/''"
proof (intro conjI notI)
  assume "p = []"
  with assms show False
    by (simp add: cd_dirName_def js_substring_from_def)
next
  assume l: "last p = CHR ''/''"
  have "p \<noteq> []" using assms by (auto simp: cd_dirName_def js_substring_from_def)
  with l have p: "p = butlast p @ CHR ''/'' # []"
    using append_butlast_last_id [of p] by simp
  have "js_lastIndexOf (butlast p @ CHR ''/'' # []) (CHR ''/'') = int (length (butlast p))"
    by (rule js_lastIndexOf_append) simp
  with p have "js_lastIndexOf p (CHR ''/'') = int (length (butlast p))" by simp
  then have "cd_dirName p = []"
    by (simp add: cd_dirName_def js_substring_from_def js_clamp_def)
  with assms show False by simp
qed

lemma getDirectoryContents_names:
  assumes "remote_names_nonempty remote" and "cache_names_nonempty st"
  shows "cache_names_nonempty (snd (getDirectoryContents remote path st))"
    and "fst (getDirectoryContents remote path st) = Some data \<Longrightarrow> names_nonempty data"
  using assms
  by (auto simp: getDirectoryContents_def remote_names_nonempty_def cache_names_nonempty_def
           split: option.splits)

lemma getFileContent_names:
  assumes "remote_names_nonempty remote" and "cache_names_nonempty st"
  shows "cache_names_nonempty (snd (getFileContent remote path st))"
  using assms
  by (auto simp: getFileContent_def remote_names_nonempty_def cache_names_nonempty_def Let_def
           split: option.splits)

lemma getFileContent_currentDirectory [simp]:
  "currentDirectory (snd (getFileContent remote path st)) = currentDirectory st"
  by (simp add: getFileContent_def Let_def split: option.splits)

lemma directory_invariant_cong:
  assumes "directory_invariant st" and "currentDirectory st' = currentDirectory st"
    and "fileSystemCache st' = fileSystemCache st"
  shows "directory_invariant st'"
  using assms by (simp add: directory_invariant_def cache_names_nonempty_def)

lemma directory_invariant_appendChild [simp]:
  "directory_invariant (appendChild ls st) = directory_invariant st"
  by (simp add: directory_invariant_def cache_names_nonempty_def appendChild_def)

lemma directory_invariant_getDirectoryContents:
  assumes "remote_names_nonempty remote" and "directory_invariant st"
  shows "directory_invariant (snd (getDirectoryContents remote path st))"
  using assms getDirectoryContents_names(1) [of remote st path]
  by (simp add: directory_invariant_def)

lemma directory_invariant_getFileContent:
  assumes "remote_names_nonempty remote" and "directory_invariant st"
  shows "directory_invariant (snd (getFileContent remote path st))"
  using assms getFileContent_names [of remote st path]
  by (simp add: directory_invariant_def)

lemma directory_invariant_cmd_ls:
  assumes "remote_names_nonempty remote" and "directory_invariant st"
  shows "directory_invariant (snd (cmd_ls remote st))"
  using directory_invariant_getDirectoryContents [OF assms, of "currentDirectory st"]
  by (cases "getDirectoryContents remote (currentDirectory st) st")
     (auto simp: cmd_ls_def split: option.splits sum.splits)

lemma directory_invariant_cat_tip:
  assumes "remote_names_nonempty remote" and "directory_invariant st"
  shows "directory_invariant (snd (cat_tip remote st))"
  using directory_invariant_getDirectoryContents [OF assms, of "currentDirectory st"]
  by (cases "getDirectoryContents remote (currentDirectory st) st")
     (auto simp: cat_tip_def Let_def split: option.splits sum.splits)

lemma directory_invariant_cmd_cat:
  assumes "remote_names_nonempty remote" and "directory_invariant st"
  shows "directory_invariant (snd (cmd_cat remote args st))"
proof (cases "truthy (first_arg args)")
  case False
  then show ?thesis using assms(2) by (simp add: cmd_cat_def)
next
  case True
  define filePath where "filePath = (if currentDirectory st = ''/'' then ''/'' @ the (first_arg args)
                         else currentDirectory st @ ''/'' @ the (first_arg args))"
  obtain r st1 where g: "getFileContent remote filePath st = (r, st1)"
    by (cases "getFileContent remote filePath st")
  then have k: "directory_invariant st1"
    using directory_invariant_getFileContent [OF assms, of filePath] by simp
  show ?thesis
  proof (cases r)
    case None
    have "directory_invariant
        (snd (cat_tip remote (appendChild [Html ''file not found'' [the (first_arg args)]] st1)))"
      using k assms(1) by (intro directory_invariant_cat_tip) simp_all
    with True g None show ?thesis
      by (simp add: cmd_cat_def Let_def filePath_def)
  next
    case (Some a)
    with True g k show ?thesis
      by (simp add: cmd_cat_def Let_def filePath_def)
  qed
qed

lemma directory_invariant_cmd_cd:
  assumes "remote_names_nonempty remote" and "directory_invariant st"
  shows "directory_invariant (snd (cmd_cd remote args st))"
proof -
  define newPath where "newPath = cd_newPath (currentDirectory st) (cd_targetDir args)"
  obtain r st1 where g: "getDirectoryContents remote (cd_parentPath newPath) st = (r, st1)"
    by (cases "getDirectoryContents remote (cd_parentPath newPath) st")
  have k: "directory_invariant st1"
    using directory_invariant_getDirectoryContents [OF assms, of "cd_parentPath newPath"] g
    by simp
  have a: "absolute newPath"
    using assms(2) by (simp add: newPath_def directory_invariant_def cd_newPath_absolute)
  have accepted: "directory_invariant (st1\<lparr>currentDirectory := newPath\<rparr>)"
    if "no_trailing_slash newPath"
    using that k a by (simp add: directory_invariant_def cache_names_nonempty_def)
  have root: "newPath = ''/'' \<Longrightarrow> no_trailing_slash newPath"
    by (simp add: no_trailing_slash_def)
  have found: "no_trailing_slash newPath"
    if "r = Some (Listing items)" "list_ex (is_dir_named (cd_dirName newPath)) items" for items
  proof -
    have "names_nonempty (Listing items)"
      using getDirectoryContents_names(2) [OF assms(1), of st "cd_parentPath newPath"]
        assms(2) g that(1)
      by (simp add: directory_invariant_def)
    with that(2) have "cd_dirName newPath \<noteq> []"
      by (auto simp: list_ex_iff list_all_iff is_dir_named_def)
    then show ?thesis
      using cd_dirName_nonempty by (simp add: no_trailing_slash_def)
  qed
  show ?thesis
  proof (cases r)
    case None
    with g k accepted root show ?thesis
      by (auto simp: cmd_cd_def Let_def newPath_def [symmetric] cd_finish_def)
  next
    case (Some data)
    show ?thesis
    proof (cases data)
      case (Listing items)
      with Some g k accepted root found [of items] show ?thesis
        by (auto simp: cmd_cd_def Let_def newPath_def [symmetric] cd_finish_def)
    next
      case (Object t c)
      with Some g k show ?thesis
        by (simp add: cmd_cd_def Let_def newPath_def [symmetric])
    qed
  qed
qed

lemma directory_invariant_cmd_themes:
  assumes "directory_invariant st"
  shows "directory_invariant (snd (cmd_themes args st))"
  using assms
  by (auto simp: cmd_themes_def setTheme_def directory_invariant_def cache_names_nonempty_def
        appendChild_def Let_def split: option.splits)

lemma directory_invariant_run_case:
  assumes "remote_names_nonempty remote" and "directory_invariant st"
  shows "directory_invariant (snd (run_case remote normalizedCommand args trimmedInput st))"
  using directory_invariant_cmd_ls [OF assms] directory_invariant_cmd_cat [OF assms, of args]
    directory_invariant_cmd_cd [OF assms, of args] directory_invariant_cmd_themes [OF assms(2), of args]
    assms(2)
  by (simp add: run_case_def)
     (simp add: directory_invariant_def cache_names_nonempty_def appendChild_def cmd_help_def
        cmd_history_def cmd_default_def)

lemma directory_invariant_handleCommand:
  assumes "remote_names_nonempty remote" and "directory_invariant st"
  shows "directory_invariant (snd (handleCommand remote input st))"
  using directory_invariant_run_case [OF assms, of "command_of input" "args_of input" "js_trim input"]
    assms(2)
  by (auto simp: handleCommand_eq cmd_clear_def directory_invariant_def cache_names_nonempty_def
           split: prod.splits sum.splits)

lemma directory_invariant_key_Enter:
  assumes "remote_names_nonempty remote" and "directory_invariant st"
  shows "directory_invariant (key_Enter remote st)"
proof -
  let ?st1 = "resetAutocompleteState st"
  let ?command = "js_trim (hiddenInput ?st1)"
  let ?st2 = "?st1\<lparr>commandHistory := commandHistory ?st1 @ [?command], historyIndex := - 1\<rparr>"
  let ?st3 = "?st2\<lparr>terminal := replacePrompt
                 (commandEcho (getCurrentDirectory ?st2) ?command) (terminal ?st2)\<rparr>"
  have i1: "directory_invariant ?st1"
    using assms(2) by (rule directory_invariant_cong) simp_all
  have i2: "directory_invariant ?st2"
    using i1 by (rule directory_invariant_cong) simp_all
  have i3: "directory_invariant ?st3"
    using i2 by (rule directory_invariant_cong) simp_all
  have upd: "directory_invariant s \<Longrightarrow> directory_invariant (s\<lparr>hiddenInput := v\<rparr>)" for s v
    by (erule directory_invariant_cong) simp_all
  have new: "directory_invariant s \<Longrightarrow> directory_invariant (newPrompt s)" for s
    by (erule directory_invariant_cong) (simp_all add: newPrompt_def appendChild_def)
  show ?thesis
  proof (cases "?command = []")
    case True
    with i1 show ?thesis by (simp add: key_Enter_def)
  next
    case False
    show ?thesis
    proof (cases "js_toLowerCase ?command = ''clear''")
      case True
      obtain r s where h: "handleCommand remote ?command ?st2 = (r, s)"
        by (cases "handleCommand remote ?command ?st2")
      have "directory_invariant s"
        using directory_invariant_handleCommand [OF assms(1) i2, of ?command] h by simp
      with h True False upd [of s] show ?thesis
        by (cases r) (simp_all add: key_Enter_def Let_def)
    next
      case notclear: False
      show ?thesis
      proof (cases "hasUserInputSpan ?st2")
        case False
        with notclear \<open>?command \<noteq> []\<close> i2 show ?thesis
          by (simp add: key_Enter_def Let_def)
      next
        case True
        obtain r s where h: "handleCommand remote ?command ?st3 = (r, s)"
          by (cases "handleCommand remote ?command ?st3")
        have "directory_invariant s"
          using directory_invariant_handleCommand [OF assms(1) i3, of ?command] h by simp
        then have "directory_invariant (newPrompt s)"
          and "directory_invariant (newPrompt (appendChild [Text ''Error executing command.''] s))"
          using new by simp_all
        with h True notclear \<open>?command \<noteq> []\<close> \<open>directory_invariant s\<close> show ?thesis
          by (cases r) (simp_all add: key_Enter_def Let_def)
      qed
    qed
  qed
qed

lemma directory_invariant_submit:
  assumes "remote_names_nonempty remote" and "directory_invariant st"
  shows "directory_invariant (submit remote l st)"
proof -
  have "directory_invariant (resetAutocompleteState (input_event l st))"
    using assms(2) by (rule directory_invariant_cong) (simp_all add: input_event_def)
  then have "directory_invariant (key_Enter remote (resetAutocompleteState (input_event l st)))"
    using assms(1) by (intro directory_invariant_key_Enter)
  then show ?thesis
    by (simp add: submit_def keydown_def)
qed

lemma directory_invariant_submissions:
  assumes "remote_names_nonempty remote" and "directory_invariant st"
  shows "directory_invariant (submissions remote ls st)"
proof (induction ls rule: rev_induct)
  case Nil
  then show ?case using assms(2) by (simp add: submissions_def)
next
  case (snoc l ls)
  have "submissions remote (ls @ [l]) st = submit remote l (submissions remote ls st)"
    by (simp add: submissions_def)
  with snoc directory_invariant_submit [OF assms(1)] show ?case
    by simp
qed

lemma directory_invariant_startup: "directory_invariant startup"
  by (simp add: directory_invariant_def cache_names_nonempty_def absolute_def
      js_startsWith_def no_trailing_slash_def startup_def resetTerminal_def
      resetCommandHistory_def appendChild_def)

text \<open>
  Claim C6, amended. When no listing of the remote has an item with the empty name,
  every execution of a command keeps this invariant: no cached listing has such an
  item, and the working directory starts with a slash and is the root or does not end
  with a slash. The invariant holds at the start; so after any sequence of submitted
  lines the working directory is absolute and carries no trailing slash other than
  the root's. The path is installed as it was composed: nothing removes a dot segment
  or an empty segment from it.
\<close>

theorem working_directory_invariant:
  assumes "remote_names_nonempty remote"
  shows "(directory_invariant st \<longrightarrow> directory_invariant (snd (handleCommand remote input st)))
       \<and> directory_invariant startup
       \<and> absolute (currentDirectory (submissions remote ls startup))
       \<and> no_trailing_slash (currentDirectory (submissions remote ls startup))"
proof -
  have "directory_invariant (submissions remote ls startup)"
    using assms directory_invariant_startup by (rule directory_invariant_submissions)
  then show ?thesis
    using directory_invariant_handleCommand [OF assms, of st input] directory_invariant_startup
    by (simp add: directory_invariant_def)
qed

text \<open>
  Claim C6 as stated: the working directory is always normalized. From the root, the
  line \<open>cd //js\<close> has the candidate \<open>//js\<close>, whose parent path is the root and
  whose leaf name is \<open>js\<close>, a directory of the root: the candidate is accepted and
  the working directory has an empty segment.
\<close>

theorem directory_not_normalized:
  "cd_parentPath ''//js'' = ''/'' \<and> cd_dirName ''//js'' = ''js''
   \<and> currentDirectory (snd (handleCommand example_remote ''cd //js'' startup)) = ''//js''
   \<and> \<not> normalized ''//js''"
  by code_simp

lemma example_remote_names: "remote_names_nonempty example_remote"
  by (auto simp: remote_names_nonempty_def example_remote_def root_listing_def
           split: if_splits)

lemma example_walk:
  "currentDirectory (snd (handleCommand example_remote ''cd js'' startup)) = ''/js''"
  "currentDirectory (submissions example_remote [''cd js'', ''cd ..''] startup) = ''/''"
  "currentDirectory (submissions example_remote [''cd js'', ''cd ..'', ''cd js/''] startup) = ''/''"
  by code_simp+

theorem working_directory_invariant_witness:
  "remote_names_nonempty example_remote
   \<and> directory_invariant startup
   \<and> directory_invariant (snd (handleCommand example_remote ''cd js'' startup))
   \<and> currentDirectory (snd (handleCommand example_remote ''cd js'' startup)) = ''/js''
   \<and> currentDirectory (submissions example_remote [''cd js'', ''cd ..'', ''cd js/''] startup)
       = ''/''
   \<and> absolute (currentDirectory
        (submissions example_remote [''cd js'', ''cd ..'', ''cd js/''] startup))
   \<and> no_trailing_slash (currentDirectory
        (submissions example_remote [''cd js'', ''cd ..'', ''cd js/''] startup))"
  using working_directory_invariant [OF example_remote_names, of startup "''cd js''"
      "[''cd js'', ''cd ..'', ''cd js/'']"]
    example_remote_names example_walk
  by simp

end
